theory Spec2Isabelle
  imports Complex_Main
begin

section \<open>Data model (app/schemas/loot.py)\<close>

text \<open>
  A price is a Python float: a finite number, one of the two infinities, or NaN. Finite
  values are real numbers and finite arithmetic is exact; the rounding error, the overflow
  and the signed zero of binary floating point are outside the model. The operations on
  the other values are those of IEEE 754: a sum of opposite infinities and a product of
  zero with an infinity are NaN, every operation on NaN is NaN, and every comparison with
  NaN is false.
\<close>

datatype pyfloat = Finite real | PosInf | NegInf | NaN

fun fneg :: "pyfloat \<Rightarrow> pyfloat" where
  "fneg (Finite a) = Finite (- a)"
| "fneg PosInf = NegInf"
| "fneg NegInf = PosInf"
| "fneg NaN = NaN"

fun fadd :: "pyfloat \<Rightarrow> pyfloat \<Rightarrow> pyfloat" where
  "fadd NaN y = NaN"
| "fadd x NaN = NaN"
| "fadd (Finite a) (Finite b) = Finite (a + b)"
| "fadd (Finite a) PosInf = PosInf"
| "fadd (Finite a) NegInf = NegInf"
| "fadd PosInf (Finite b) = PosInf"
| "fadd NegInf (Finite b) = NegInf"
| "fadd PosInf PosInf = PosInf"
| "fadd NegInf NegInf = NegInf"
| "fadd PosInf NegInf = NaN"
| "fadd NegInf PosInf = NaN"

definition fsub :: "pyfloat \<Rightarrow> pyfloat \<Rightarrow> pyfloat" where
  "fsub x y = fadd x (fneg y)"

fun fmul :: "pyfloat \<Rightarrow> pyfloat \<Rightarrow> pyfloat" where
  "fmul NaN y = NaN"
| "fmul x NaN = NaN"
| "fmul (Finite a) (Finite b) = Finite (a * b)"
| "fmul (Finite a) PosInf = (if a = 0 then NaN else if 0 < a then PosInf else NegInf)"
| "fmul (Finite a) NegInf = (if a = 0 then NaN else if 0 < a then NegInf else PosInf)"
| "fmul PosInf (Finite b) = (if b = 0 then NaN else if 0 < b then PosInf else NegInf)"
| "fmul NegInf (Finite b) = (if b = 0 then NaN else if 0 < b then NegInf else PosInf)"
| "fmul PosInf PosInf = PosInf"
| "fmul NegInf NegInf = PosInf"
| "fmul PosInf NegInf = NegInf"
| "fmul NegInf PosInf = NegInf"

text \<open>\<open>x <= y\<close> and \<open>x < y\<close>; \<open>x > y\<close> is \<open>flt y x\<close>.\<close>

fun fle :: "pyfloat \<Rightarrow> pyfloat \<Rightarrow> bool" where
  "fle NaN y = False"
| "fle x NaN = False"
| "fle (Finite a) (Finite b) = (a \<le> b)"
| "fle NegInf y = True"
| "fle x PosInf = True"
| "fle PosInf y = False"
| "fle (Finite a) NegInf = False"

fun flt :: "pyfloat \<Rightarrow> pyfloat \<Rightarrow> bool" where
  "flt NaN y = False"
| "flt x NaN = False"
| "flt (Finite a) (Finite b) = (a < b)"
| "flt PosInf y = False"
| "flt x NegInf = False"
| "flt NegInf y = True"
| "flt (Finite a) PosInf = True"

fun is_finite :: "pyfloat \<Rightarrow> bool" where
  "is_finite (Finite a) = True"
| "is_finite x = False"

text \<open>
  The pydantic models become records. A field typed \<open>str | None\<close> or \<open>float | None\<close> is an
  option; \<open>None\<close> is the Python \<open>None\<close>. Python's \<open>int\<close> is \<open>int\<close>. The confidence score is
  a sum of a few constants; it is a real number.
\<close>

record GeminiVisionResult =
  brand :: "string option"
  model :: "string option"
  condition :: "string option"
  color :: "string option"
  category :: "string option"
  raw_description :: "string option"

record PriceDataResult =
  min_price :: "pyfloat option"
  max_price :: "pyfloat option"
  avg_price :: "pyfloat option"
  currency :: string
  source_count :: int

text \<open>\<open>PriceDataResult(source_count=n)\<close>: every other field takes its declared default.\<close>

definition PriceDataResult_of_count :: "int \<Rightarrow> PriceDataResult" where
  "PriceDataResult_of_count n =
     \<lparr>min_price = None, max_price = None, avg_price = None, currency = ''USD'', source_count = n\<rparr>"

text \<open>
  One entry of SerpApi's \<open>shopping_results\<close>: the two keys the code reads. \<open>None\<close> is a
  missing key (or a JSON null).
\<close>

record shopping_item =
  extracted_price :: "pyfloat option"
  price :: "string option"

text \<open>Exceptions are values: \<open>Inl\<close> of a sum is a raised exception.\<close>

datatype exc_class = UpstreamError | JSONDecodeError | StatisticsError | ValueError | IndexError

datatype py_exception = PyExc exc_class string

text \<open>\<open>str(e)\<close>: the message the exception carries.\<close>

fun py_str_exc :: "py_exception \<Rightarrow> string" where
  "py_str_exc (PyExc c msg) = msg"

definition bind_exc :: "'e + 'a \<Rightarrow> ('a \<Rightarrow> 'e + 'b) \<Rightarrow> 'e + 'b" where
  "bind_exc m f = (case m of Inl e \<Rightarrow> Inl e | Inr x \<Rightarrow> f x)"

section \<open>Python built-ins used by the services\<close>

text \<open>Truthiness: \<open>if s:\<close> on a \<open>str | None\<close> and \<open>if x:\<close> on a \<open>float | None\<close>.\<close>

definition truthy_str :: "string option \<Rightarrow> bool" where
  "truthy_str s = (case s of None \<Rightarrow> False | Some t \<Rightarrow> t \<noteq> [])"

definition truthy_float :: "pyfloat option \<Rightarrow> bool" where
  "truthy_float x = (case x of None \<Rightarrow> False | Some v \<Rightarrow> v \<noteq> Finite 0)"

text \<open>
  \<open>xs[i]\<close> for a non-negative index, \<open>min\<close> and \<open>max\<close>, each with its raise. \<open>min\<close> keeps
  the first item and replaces it by each later item that is \<open><\<close> it; \<open>max\<close> does the same
  with \<open>>\<close>.
\<close>

definition py_index :: "'a list \<Rightarrow> nat \<Rightarrow> py_exception + 'a" where
  "py_index xs i = (if i < length xs then Inr (xs ! i) else Inl (PyExc IndexError ''list index out of range''))"

definition keep_smaller :: "pyfloat \<Rightarrow> pyfloat \<Rightarrow> pyfloat" where
  "keep_smaller item current = (if flt item current then item else current)"

definition keep_larger :: "pyfloat \<Rightarrow> pyfloat \<Rightarrow> pyfloat" where
  "keep_larger item current = (if flt current item then item else current)"

fun py_min :: "pyfloat list \<Rightarrow> py_exception + pyfloat" where
  "py_min [] = Inl (PyExc ValueError ''min() arg is an empty sequence'')"
| "py_min (x # xs) = Inr (fold keep_smaller xs x)"

fun py_max :: "pyfloat list \<Rightarrow> py_exception + pyfloat" where
  "py_max [] = Inl (PyExc ValueError ''max() arg is an empty sequence'')"
| "py_max (x # xs) = Inr (fold keep_larger xs x)"

text \<open>
  \<open>statistics.mean\<close>. It raises on an empty list. It adds finite values as exact fractions;
  when a value is not finite it drops the finite ones and adds the others as floats,
  starting from 0. The total is divided by the length, which leaves an infinity or NaN
  as it is.
\<close>

fun finite_value :: "pyfloat \<Rightarrow> real" where
  "finite_value (Finite a) = a"
| "finite_value x = 0"

definition statistics_mean :: "pyfloat list \<Rightarrow> py_exception + pyfloat" where
  "statistics_mean xs =
     (if xs = [] then Inl (PyExc StatisticsError ''mean requires at least one data point'')
      else if list_all is_finite xs
        then Inr (Finite (sum_list (map finite_value xs) / real (length xs)))
      else Inr (fold (\<lambda>x total. fadd total x) (filter (\<lambda>x. \<not> is_finite x) xs) (Finite 0)))"

text \<open>
  \<open>sorted\<close>, as the insertion sort that compares with \<open><\<close> and puts an item after the
  items equal to it. On a list without NaN this is the sorted list. (On a list that holds
  NaN the result of Python's sort depends on the comparisons it makes; the prices that
  reach it have passed \<open>price > 0\<close> and are never NaN.)
\<close>

fun py_insort :: "pyfloat \<Rightarrow> pyfloat list \<Rightarrow> pyfloat list" where
  "py_insort x [] = [x]"
| "py_insort x (y # ys) = (if flt x y then x # y # ys else y # py_insort x ys)"

definition py_sorted :: "pyfloat list \<Rightarrow> pyfloat list" where
  "py_sorted xs = fold py_insort xs []"

text \<open>
  Rounding to the nearest integer with ties going to the even neighbour, as \<open>round\<close> and the
  \<open>.0f\<close> format do; \<open>round(x, 2)\<close> is that rounding applied to hundredths, and returns an
  infinity or NaN unchanged.
\<close>

definition round_half_even :: "real \<Rightarrow> int" where
  "round_half_even x =
     (let f = \<lfloor>x\<rfloor>; d = x - of_int f
      in if d < 1/2 then f else if 1/2 < d then f + 1 else if even f then f else f + 1)"

fun py_round2 :: "pyfloat \<Rightarrow> pyfloat" where
  "py_round2 (Finite x) = Finite (of_int (round_half_even (x * 100)) / 100)"
| "py_round2 x = x"

section \<open>Price statistics (app/services/serpapi_service.py)\<close>

text \<open>
  \<open>_remove_outliers\<close>. The two index reads sit behind the length check; they are
  written with their raise all the same.
\<close>

definition remove_outliers :: "pyfloat list \<Rightarrow> py_exception + pyfloat list" where
  "remove_outliers prices =
     (if length prices < 4 then Inr prices
      else
        let sorted_prices = py_sorted prices;
            n = length sorted_prices;
            q1_idx = n div 4;
            q3_idx = (3 * n) div 4
        in bind_exc (py_index sorted_prices q1_idx) (\<lambda>q1.
           bind_exc (py_index sorted_prices q3_idx) (\<lambda>q3.
             let iqr = fsub q3 q1;
                 lower_bound = fsub q1 (fmul (Finite 1.5) iqr);
                 upper_bound = fadd q3 (fmul (Finite 1.5) iqr)
             in Inr (filter (\<lambda>p. fle lower_bound p \<and> fle p upper_bound) prices))))"

text \<open>
  String operations, on ASCII text: \<open>s.replace(c, "")\<close> for a one-character \<open>c\<close>,
  \<open>s.strip()\<close>, \<open>s.lower()\<close>, \<open>s.startswith(t)\<close>, \<open>t in s\<close> and \<open>s.split(t)[0]\<close>.
\<close>

definition py_isspace :: "char \<Rightarrow> bool" where
  "py_isspace c \<longleftrightarrow>
     c \<in> set [CHR '' '', CHR 0x09, CHR 0x0A, CHR 0x0B, CHR 0x0C, CHR 0x0D,
               CHR 0x1C, CHR 0x1D, CHR 0x1E, CHR 0x1F]"

definition py_strip :: "string \<Rightarrow> string" where
  "py_strip s = rev (dropWhile py_isspace (rev (dropWhile py_isspace s)))"

definition remove_char :: "char \<Rightarrow> string \<Rightarrow> string" where
  "remove_char c s = filter (\<lambda>d. d \<noteq> c) s"

definition lower_char :: "char \<Rightarrow> char" where
  "lower_char c =
     (case map_of (zip ''ABCDEFGHIJKLMNOPQRSTUVWXYZ'' ''abcdefghijklmnopqrstuvwxyz'') c of
        None \<Rightarrow> c
      | Some l \<Rightarrow> l)"

definition py_lower :: "string \<Rightarrow> string" where
  "py_lower s = map lower_char s"

fun starts_with :: "string \<Rightarrow> string \<Rightarrow> bool" where
  "starts_with s [] = True"
| "starts_with [] (p # ps) = False"
| "starts_with (c # cs) (p # ps) = (c = p \<and> starts_with cs ps)"

fun py_contains :: "string \<Rightarrow> string \<Rightarrow> bool" where
  "py_contains sub [] = (sub = [])"
| "py_contains sub (c # cs) = (starts_with (c # cs) sub \<or> py_contains sub cs)"

fun split_first :: "string \<Rightarrow> string \<Rightarrow> string" where
  "split_first sep [] = []"
| "split_first sep (c # cs) =
     (if starts_with (c # cs) sep then [] else c # split_first sep cs)"

text \<open>
  \<open>_parse_price_string\<close>. The built-in \<open>float\<close> is a parameter \<open>py_float\<close>: \<open>None\<close> is
  its \<open>ValueError\<close>, which the method catches and turns into \<open>None\<close>.
\<close>

definition parse_price_string ::
  "(string \<Rightarrow> pyfloat option) \<Rightarrow> string option \<Rightarrow> pyfloat option" where
  "parse_price_string py_float price_str =
     (case price_str of
        None \<Rightarrow> None
      | Some s \<Rightarrow>
          if s = [] then None
          else
            let cleaned = py_strip (remove_char CHR '','' (remove_char CHR ''$'' s));
                cleaned = (if py_contains '' - '' cleaned then split_first '' - '' cleaned
                           else cleaned);
                cleaned = (if py_contains '' to '' (py_lower cleaned)
                           then split_first '' to '' (py_lower cleaned) else cleaned)
            in py_float cleaned)"

text \<open>\<open>_extract_prices\<close>: the loop over the results, keeping the positive prices in order.\<close>

fun extract_prices :: "(string \<Rightarrow> pyfloat option) \<Rightarrow> shopping_item list \<Rightarrow> pyfloat list" where
  "extract_prices py_float [] = []"
| "extract_prices py_float (item # items) =
     (let price = (case extracted_price item of
                     None \<Rightarrow> parse_price_string py_float (price item)
                   | Some p \<Rightarrow> Some p)
      in case price of
           None \<Rightarrow> extract_prices py_float items
         | Some p \<Rightarrow> if flt (Finite 0) p then p # extract_prices py_float items
                     else extract_prices py_float items)"

text \<open>
  The values the code reads at the two quartile positions of the sorted list, named for the
  statements below.
\<close>

definition quartile1 :: "pyfloat list \<Rightarrow> pyfloat" where
  "quartile1 prices = py_sorted prices ! (length prices div 4)"

definition quartile3 :: "pyfloat list \<Rightarrow> pyfloat" where
  "quartile3 prices = py_sorted prices ! ((3 * length prices) div 4)"

text \<open>
  The statistics of \<open>get_price_data\<close> (lines 62 to 91), from the extracted prices on: the
  part of the \<open>try\<close> block that follows \<open>_extract_prices\<close>.
\<close>

definition price_range :: "pyfloat list \<Rightarrow> py_exception + pyfloat \<times> pyfloat" where
  "price_range filtered_prices =
     (if length filtered_prices \<ge> 4 then
        let sorted_prices = py_sorted filtered_prices;
            q1_idx = length sorted_prices div 4;
            q3_idx = (3 * length sorted_prices) div 4
        in bind_exc (py_index sorted_prices q1_idx) (\<lambda>min_price.
           bind_exc (py_index sorted_prices q3_idx) (\<lambda>max_price.
             Inr (min_price, max_price)))
      else
        bind_exc (py_min filtered_prices) (\<lambda>min_price.
        bind_exc (py_max filtered_prices) (\<lambda>max_price.
          Inr (min_price, max_price))))"

definition price_statistics :: "nat \<Rightarrow> pyfloat list \<Rightarrow> py_exception + PriceDataResult" where
  "price_statistics n_results prices =
     (if prices = [] then Inr (PriceDataResult_of_count (int n_results))
      else
        bind_exc (remove_outliers prices) (\<lambda>filtered_prices.
          let filtered_prices = (if filtered_prices = [] then prices else filtered_prices)
          in bind_exc (statistics_mean filtered_prices) (\<lambda>avg_price.
             bind_exc (price_range filtered_prices) (\<lambda>(min_price, max_price).
               Inr \<lparr>min_price = Some (py_round2 min_price),
                    max_price = Some (py_round2 max_price),
                    avg_price = Some (py_round2 avg_price),
                    currency = ''USD'',
                    source_count = int (length filtered_prices)\<rparr>))))"

text \<open>
  \<open>get_price_data\<close>. The argument \<open>search\<close> is the outcome of \<open>GoogleSearch(params).get_dict()\<close>:
  an exception of the upstream call, or the response, of which the code reads the key
  \<open>shopping_results\<close> (\<open>None\<close> when the key is missing). The whole body is inside
  \<open>try ... except Exception\<close>, whose handler returns \<open>PriceDataResult(source_count=0)\<close>.
\<close>

definition get_price_data_try ::
  "(string \<Rightarrow> pyfloat option) \<Rightarrow> py_exception + shopping_item list option
     \<Rightarrow> py_exception + PriceDataResult" where
  "get_price_data_try py_float search =
     bind_exc search (\<lambda>results.
       let shopping_results = (case results of None \<Rightarrow> [] | Some rs \<Rightarrow> rs)
       in if shopping_results = [] then Inr (PriceDataResult_of_count 0)
          else price_statistics (length shopping_results)
                 (extract_prices py_float shopping_results))"

definition get_price_data ::
  "(string \<Rightarrow> pyfloat option) \<Rightarrow> py_exception + shopping_item list option
     \<Rightarrow> py_exception + PriceDataResult" where
  "get_price_data py_float search =
     (case get_price_data_try py_float search of
        Inl e \<Rightarrow> Inr (PriceDataResult_of_count 0)
      | Inr r \<Rightarrow> Inr r)"

section \<open>Item identification (app/services/gemini_service.py)\<close>

text \<open>
  \<open>_parse_response\<close>. \<open>json.loads\<close> is a parameter: it raises (\<open>Inl\<close>) or returns the
  object as a map from keys to values, a value being a JSON string or null (\<open>None\<close>).
  Only \<open>JSONDecodeError\<close> is caught here.
\<close>

definition ends_with :: "string \<Rightarrow> string \<Rightarrow> bool" where
  "ends_with s suf = starts_with (rev s) (rev suf)"

definition GeminiVisionResult_unknown :: "string \<Rightarrow> GeminiVisionResult" where
  "GeminiVisionResult_unknown d =
     \<lparr>brand = None, model = None, condition = None, color = None,
      category = Some ''Unknown'', raw_description = Some d\<rparr>"

definition dict_get :: "(string \<rightharpoonup> string option) \<Rightarrow> string \<Rightarrow> string option \<Rightarrow> string option" where
  "dict_get d k dflt = (case d k of None \<Rightarrow> dflt | Some v \<Rightarrow> v)"

definition parse_response ::
  "(string \<Rightarrow> py_exception + (string \<rightharpoonup> string option)) \<Rightarrow> string
     \<Rightarrow> py_exception + GeminiVisionResult" where
  "parse_response json_loads response_text =
     (let cleaned = py_strip response_text;
          cleaned = (if starts_with cleaned ''```json'' then drop 7 cleaned else cleaned);
          cleaned = (if starts_with cleaned ''```'' then drop 3 cleaned else cleaned);
          cleaned = (if ends_with cleaned ''```'' then take (length cleaned - 3) cleaned
                     else cleaned);
          cleaned = py_strip cleaned
      in case json_loads cleaned of
           Inl (PyExc c msg) \<Rightarrow>
             if c = JSONDecodeError
             then Inr (GeminiVisionResult_unknown
                         (if response_text \<noteq> [] then take 200 response_text
                          else ''Parse error''))
             else Inl (PyExc c msg)
         | Inr data \<Rightarrow>
             Inr \<lparr>brand = dict_get data ''brand'' None,
                  model = dict_get data ''model'' None,
                  condition = dict_get data ''condition'' None,
                  color = dict_get data ''color'' None,
                  category = dict_get data ''category'' (Some ''Unknown''),
                  raw_description =
                    dict_get data ''raw_description'' (Some ''No description available'')\<rparr>)"

text \<open>
  \<open>identify_item\<close>. \<open>generate\<close> is the outcome of \<open>self.model.generate_content(...)\<close> and of
  reading \<open>response.text\<close>: an exception or the text. The handler of \<open>except Exception\<close>
  returns a result in place of the exception.
\<close>

definition identify_item ::
  "(string \<Rightarrow> py_exception + (string \<rightharpoonup> string option)) \<Rightarrow> py_exception + string
     \<Rightarrow> py_exception + GeminiVisionResult" where
  "identify_item json_loads generate =
     (case bind_exc generate (parse_response json_loads) of
        Inl e \<Rightarrow> Inr (GeminiVisionResult_unknown (''Unable to identify item: '' @ py_str_exc e))
      | Inr r \<Rightarrow> Inr r)"

section \<open>Appraisal (app/services/appraiser_service.py)\<close>

record LootAnalysisResponse =
  item_name :: string
  estimated_value :: string
  confidence_score :: real
  description :: string
  rarity_score :: string
  response_category :: string
  market_demand :: string
  response_source_count :: int

text \<open>\<open>sep.join(parts)\<close>, \<open>s.rsplit(" ", 1)[0]\<close> and the format \<open>f"{x:.0f}"\<close>.\<close>

fun py_join :: "string \<Rightarrow> string list \<Rightarrow> string" where
  "py_join sep [] = []"
| "py_join sep [x] = x"
| "py_join sep (x # y # ys) = x @ sep @ py_join sep (y # ys)"

definition rsplit_space_first :: "string \<Rightarrow> string" where
  "rsplit_space_first s =
     (if CHR '' '' \<in> set s then rev (tl (dropWhile (\<lambda>c. c \<noteq> CHR '' '') (rev s))) else s)"

definition digit_char :: "nat \<Rightarrow> char" where
  "digit_char d = ''0123456789'' ! d"

fun string_of_nat :: "nat \<Rightarrow> string" where
  "string_of_nat n =
     (if n < 10 then [digit_char n] else string_of_nat (n div 10) @ [digit_char (n mod 10)])"

declare string_of_nat.simps [simp del]

fun format_0f :: "pyfloat \<Rightarrow> string" where
  "format_0f (Finite x) =
     (if x < 0 then ''-'' @ string_of_nat (nat (round_half_even (- x)))
      else string_of_nat (nat (round_half_even x)))"
| "format_0f PosInf = ''inf''"
| "format_0f NegInf = ''-inf''"
| "format_0f NaN = ''nan''"

declare format_0f.simps [simp del]

text \<open>The list \<open>parts\<close> that \<open>_build_search_query\<close> and \<open>_format_item_name\<close> both build.\<close>

definition brand_model_parts :: "GeminiVisionResult \<Rightarrow> string list" where
  "brand_model_parts vision_result =
     (let parts = [];
          parts = (if truthy_str (brand vision_result) then parts @ [the (brand vision_result)]
                   else parts);
          parts = (if truthy_str (model vision_result) then parts @ [the (model vision_result)]
                   else parts)
      in parts)"

definition build_search_query :: "GeminiVisionResult \<Rightarrow> string" where
  "build_search_query vision_result =
     (let parts = brand_model_parts vision_result
      in if parts \<noteq> [] then py_join '' '' parts
         else if truthy_str (raw_description vision_result) then
           (let desc = py_strip (the (raw_description vision_result))
            in if py_contains ''. '' desc then split_first ''. '' desc
               else if length desc > 80 then take 80 desc else desc)
         else if truthy_str (category vision_result) \<and> category vision_result \<noteq> Some ''Unknown''
           then the (category vision_result)
         else ''unknown item'')"

definition format_item_name :: "GeminiVisionResult \<Rightarrow> string" where
  "format_item_name vision_result =
     (let parts = brand_model_parts vision_result
      in if parts \<noteq> [] then py_join '' '' parts
         else if truthy_str (raw_description vision_result) then
           (let desc = py_strip (the (raw_description vision_result))
            in if py_contains ''. '' desc then split_first ''. '' desc
               else if length desc > 50 then rsplit_space_first (take 50 desc) @ ''...''
               else desc)
         else if truthy_str (category vision_result) \<and> category vision_result \<noteq> Some ''Unknown''
           then the (category vision_result) @ '' Item''
         else ''Unidentified Item'')"

definition format_price_range :: "PriceDataResult \<Rightarrow> string" where
  "format_price_range price_data =
     (case avg_price price_data of
        None \<Rightarrow> ''Price unavailable''
      | Some avg \<Rightarrow>
          if truthy_float (min_price price_data) \<and> truthy_float (max_price price_data) then
            (let spread = fsub (the (max_price price_data)) (the (min_price price_data))
             in if fle spread (fmul avg (Finite 0.3)) then ''~$'' @ format_0f avg
                else ''$'' @ format_0f (the (min_price price_data)) @ '' - $''
                       @ format_0f (the (max_price price_data)))
          else ''~$'' @ format_0f avg)"

definition calculate_confidence :: "GeminiVisionResult \<Rightarrow> PriceDataResult \<Rightarrow> real" where
  "calculate_confidence vision_result price_data =
     (let score = 0.5;
          score = (if truthy_str (brand vision_result) then score + 0.15 else score);
          score = (if truthy_str (model vision_result) then score + 0.15 else score);
          score = (if truthy_str (condition vision_result) then score + 0.05 else score);
          score = (if source_count price_data \<ge> 10 then score + 0.15
                   else if source_count price_data \<ge> 5 then score + 0.10
                   else score)
      in min score 1.0)"

definition generate_description :: "GeminiVisionResult \<Rightarrow> string" where
  "generate_description vision_result =
     (let parts = [];
          parts = (if truthy_str (raw_description vision_result)
                   then parts @ [the (raw_description vision_result)] else parts);
          parts = (if truthy_str (condition vision_result)
                   then parts @ [''Condition: '' @ the (condition vision_result) @ ''.'']
                   else parts);
          parts = (if truthy_str (color vision_result)
                   then parts @ [''Color: '' @ the (color vision_result) @ ''.'']
                   else parts)
      in if parts \<noteq> [] then py_join '' '' parts else ''No description available.'')"

definition calculate_rarity :: "PriceDataResult \<Rightarrow> string" where
  "calculate_rarity price_data =
     (case avg_price price_data of
        None \<Rightarrow> ''Unknown''
      | Some avg \<Rightarrow>
          let sources = source_count price_data
          in if flt (Finite 500) avg \<and> sources < 5 then ''Legendary''
             else if flt (Finite 300) avg \<or> sources < 3 then ''Epic''
             else if flt (Finite 150) avg \<or> sources < 8 then ''Rare''
             else if flt (Finite 75) avg then ''Uncommon''
             else ''Common'')"

definition calculate_market_demand :: "PriceDataResult \<Rightarrow> string" where
  "calculate_market_demand price_data =
     (let sources = source_count price_data
      in if sources \<ge> 15 then ''High''
         else if sources \<ge> 5 then ''Medium''
         else ''Low'')"

definition build_response :: "GeminiVisionResult \<Rightarrow> PriceDataResult \<Rightarrow> LootAnalysisResponse" where
  "build_response vision_result price_data =
     \<lparr>item_name = format_item_name vision_result,
      estimated_value = format_price_range price_data,
      confidence_score = calculate_confidence vision_result price_data,
      description = generate_description vision_result,
      rarity_score = calculate_rarity price_data,
      response_category = (if truthy_str (category vision_result)
                           then the (category vision_result) else ''Unknown''),
      market_demand = calculate_market_demand price_data,
      response_source_count = source_count price_data\<rparr>"

text \<open>
  \<open>analyze_item\<close>. The two services are the outcomes of their calls: \<open>vision\<close> is what
  \<open>identify_item(image_data)\<close> returns or raises, \<open>pricing\<close> maps the query to what
  \<open>get_price_data(query)\<close> returns or raises. The method has no handler: an exception of
  either call leaves it as it is.
\<close>

definition analyze_item ::
  "py_exception + GeminiVisionResult \<Rightarrow> (string \<Rightarrow> py_exception + PriceDataResult)
     \<Rightarrow> py_exception + LootAnalysisResponse" where
  "analyze_item vision pricing =
     bind_exc vision (\<lambda>vision_result.
       let search_query = build_search_query vision_result
       in bind_exc (pricing search_query) (\<lambda>price_data.
            Inr (build_response vision_result price_data)))"

section \<open>The scoring rules in the words of the specification\<close>

text \<open>
  The rarity rules of section 4.3 as the ordered table the specification gives, read with
  the first rule that matches; \<open>Common\<close> when none does, \<open>Unknown\<close> without an average.
\<close>

definition spec_rarity_rules :: "((pyfloat \<Rightarrow> int \<Rightarrow> bool) \<times> string) list" where
  "spec_rarity_rules =
     [(\<lambda>avg sources. flt (Finite 500) avg \<and> sources < 5, ''Legendary''),
      (\<lambda>avg sources. flt (Finite 300) avg \<or> sources < 3, ''Epic''),
      (\<lambda>avg sources. flt (Finite 150) avg \<or> sources < 8, ''Rare''),
      (\<lambda>avg sources. flt (Finite 75) avg, ''Uncommon'')]"

fun first_match ::
  "((pyfloat \<Rightarrow> int \<Rightarrow> bool) \<times> string) list \<Rightarrow> pyfloat \<Rightarrow> int \<Rightarrow> string \<Rightarrow> string" where
  "first_match [] avg sources otherwise = otherwise"
| "first_match ((applies, tier) # rules) avg sources otherwise =
     (if applies avg sources then tier else first_match rules avg sources otherwise)"

definition spec_rarity_tier :: "pyfloat option \<Rightarrow> int \<Rightarrow> string" where
  "spec_rarity_tier average sample_count =
     (case average of
        None \<Rightarrow> ''Unknown''
      | Some avg \<Rightarrow> first_match spec_rarity_rules avg sample_count ''Common'')"

text \<open>
  The confidence score of section 4.3: the base, the three bonuses for fields that are
  present, the bonus for the sample count, and the clamp.
\<close>

definition spec_confidence :: "bool \<Rightarrow> bool \<Rightarrow> bool \<Rightarrow> int \<Rightarrow> real" where
  "spec_confidence brand_present model_present condition_present sample_count =
     min 1.0
       (0.5 + (if brand_present then 0.15 else 0)
            + (if model_present then 0.15 else 0)
            + (if condition_present then 0.05 else 0)
            + (if sample_count \<ge> 10 then 0.15 else if sample_count \<ge> 5 then 0.10 else 0))"

section \<open>Properties of the price statistics\<close>

subsection \<open>Comparisons, sorting and the outlier filter\<close>

lemma fle_refl: "x \<noteq> NaN \<Longrightarrow> fle x x"
  by (cases x) simp_all

lemma fle_trans: "fle a b \<Longrightarrow> fle b c \<Longrightarrow> fle a c"
  by (cases a; cases b; cases c) simp_all

lemma fle_not_NaN: "fle a b \<Longrightarrow> a \<noteq> NaN \<and> b \<noteq> NaN"
  by (cases a; cases b) simp_all

lemma not_flt_iff: "a \<noteq> NaN \<Longrightarrow> b \<noteq> NaN \<Longrightarrow> (\<not> flt a b) = fle b a"
  by (cases a; cases b) auto

lemma flt_imp_fle: "flt a b \<Longrightarrow> fle a b"
  by (cases a; cases b) simp_all

lemma positive_cases: "flt (Finite 0) p \<longleftrightarrow> p = PosInf \<or> (\<exists>r. p = Finite r \<and> 0 < r)"
  by (cases p) simp_all

lemma positive_not_NaN: "\<forall>p\<in>set ps. flt (Finite 0) p \<Longrightarrow> NaN \<notin> set ps"
  by (auto simp: positive_cases)

lemma finite_not_NaN: "list_all is_finite ps \<Longrightarrow> NaN \<notin> set ps"
  by (auto simp: list_all_iff)

lemma length_py_insort: "length (py_insort x ys) = Suc (length ys)"
  by (induction ys) simp_all

lemma set_py_insort: "set (py_insort x ys) = insert x (set ys)"
  by (induction ys) auto

lemma sorted_py_insort:
  "sorted_wrt fle ys \<Longrightarrow> x \<noteq> NaN \<Longrightarrow> NaN \<notin> set ys \<Longrightarrow> sorted_wrt fle (py_insort x ys)"
proof (induction ys)
  case Nil
  then show ?case by simp
next
  case (Cons y ys)
  have ynn: "y \<noteq> NaN" and ysnn: "NaN \<notin> set ys" using Cons.prems(3) by auto
  have sys: "sorted_wrt fle ys" and yle: "\<forall>z\<in>set ys. fle y z" using Cons.prems(1) by auto
  show ?case
  proof (cases "flt x y")
    case True
    then have xy: "fle x y" by (rule flt_imp_fle)
    have "\<forall>z\<in>set ys. fle x z" using yle xy fle_trans by blast
    with True xy Cons.prems(1) show ?thesis by simp
  next
    case False
    then have yx: "fle y x" using Cons.prems(2) ynn by (simp add: not_flt_iff)
    have "sorted_wrt fle (py_insort x ys)" using Cons.IH[OF sys Cons.prems(2) ysnn] .
    with False yx yle show ?thesis by (simp add: set_py_insort)
  qed
qed

lemma length_fold_py_insort: "length (fold py_insort xs acc) = length xs + length acc"
  by (induction xs arbitrary: acc) (simp_all add: length_py_insort)

lemma set_fold_py_insort: "set (fold py_insort xs acc) = set xs \<union> set acc"
  by (induction xs arbitrary: acc) (simp_all add: set_py_insort)

lemma sorted_fold_py_insort:
  "sorted_wrt fle acc \<Longrightarrow> NaN \<notin> set xs \<Longrightarrow> NaN \<notin> set acc
     \<Longrightarrow> sorted_wrt fle (fold py_insort xs acc)"
proof (induction xs arbitrary: acc)
  case Nil
  then show ?case by simp
next
  case (Cons x xs)
  have x: "x \<noteq> NaN" and xs: "NaN \<notin> set xs" using Cons.prems(2) by auto
  have s: "sorted_wrt fle (py_insort x acc)"
    using Cons.prems(1) x Cons.prems(3) by (rule sorted_py_insort)
  have n: "NaN \<notin> set (py_insort x acc)" using x Cons.prems(3) by (auto simp: set_py_insort)
  show ?case using Cons.IH[OF s xs n] by simp
qed

lemma length_py_sorted: "length (py_sorted xs) = length xs"
  by (simp add: py_sorted_def length_fold_py_insort)

lemma set_py_sorted: "set (py_sorted xs) = set xs"
  by (simp add: py_sorted_def set_fold_py_insort)

lemma sorted_py_sorted: "NaN \<notin> set xs \<Longrightarrow> sorted_wrt fle (py_sorted xs)"
  by (simp add: py_sorted_def sorted_fold_py_insort)

lemma py_sorted_nth_mono:
  assumes "NaN \<notin> set xs" and "i \<le> j" and "j < length xs"
  shows "fle (py_sorted xs ! i) (py_sorted xs ! j)"
proof (cases "i = j")
  case True
  have "py_sorted xs ! j \<in> set (py_sorted xs)"
    using assms(3) by (intro nth_mem) (simp add: length_py_sorted)
  then have "py_sorted xs ! j \<noteq> NaN" using assms(1) by (auto simp: set_py_sorted)
  with True show ?thesis by (simp add: fle_refl)
next
  case False
  then have "i < j" using assms(2) by simp
  then show ?thesis
    using sorted_py_sorted[OF assms(1)] assms(3)
    by (intro sorted_wrt_nth_less) (simp_all add: length_py_sorted)
qed

lemma quartile_idx: "4 \<le> (n::nat) \<Longrightarrow> n div 4 \<le> (3 * n) div 4 \<and> (3 * n) div 4 < n"
  by (simp add: div_le_mono less_mult_imp_div_less)

lemma quartile1_le_quartile3:
  "4 \<le> length prices \<Longrightarrow> NaN \<notin> set prices \<Longrightarrow> fle (quartile1 prices) (quartile3 prices)"
  unfolding quartile1_def quartile3_def
  using quartile_idx[of "length prices"] by (intro py_sorted_nth_mono) simp_all

lemma quartile1_in_set: "4 \<le> length prices \<Longrightarrow> quartile1 prices \<in> set prices"
proof -
  assume h: "4 \<le> length prices"
  then have "length prices div 4 < length (py_sorted prices)" by (simp add: length_py_sorted)
  then have "py_sorted prices ! (length prices div 4) \<in> set (py_sorted prices)"
    by (rule nth_mem)
  then show ?thesis by (simp add: quartile1_def set_py_sorted)
qed

lemma quartile3_in_set: "4 \<le> length prices \<Longrightarrow> quartile3 prices \<in> set prices"
proof -
  assume h: "4 \<le> length prices"
  then have "(3 * length prices) div 4 < length (py_sorted prices)"
    using quartile_idx by (simp add: length_py_sorted)
  then have "py_sorted prices ! ((3 * length prices) div 4) \<in> set (py_sorted prices)"
    by (rule nth_mem)
  then show ?thesis by (simp add: quartile3_def set_py_sorted)
qed

lemma remove_outliers_small: "length prices < 4 \<Longrightarrow> remove_outliers prices = Inr prices"
  by (simp add: remove_outliers_def)

lemma remove_outliers_large:
  assumes "4 \<le> length prices"
  shows "remove_outliers prices =
           Inr (filter (\<lambda>p. fle (fsub (quartile1 prices)
                                   (fmul (Finite 1.5) (fsub (quartile3 prices) (quartile1 prices)))) p
                          \<and> fle p (fadd (quartile3 prices)
                                   (fmul (Finite 1.5) (fsub (quartile3 prices) (quartile1 prices)))))
                  prices)"
  using assms quartile_idx[of "length prices"]
  by (simp add: remove_outliers_def Let_def bind_exc_def py_index_def quartile1_def
      quartile3_def length_py_sorted)

lemma remove_outliers_total: "\<exists>kept. remove_outliers prices = Inr kept \<and> set kept \<subseteq> set prices"
proof (cases "length prices < 4")
  case True
  then show ?thesis by (simp add: remove_outliers_small)
next
  case False
  then have "4 \<le> length prices" by simp
  then show ?thesis by (auto simp: remove_outliers_large)
qed

text \<open>The bounds around a finite Q1: both quartile values lie within them.\<close>

lemma bounds_finite_q1:
  assumes "fle (Finite a) q3"
  shows "fle (fsub (Finite a) (fmul (Finite 1.5) (fsub q3 (Finite a)))) (Finite a)
       \<and> fle (Finite a) (fadd q3 (fmul (Finite 1.5) (fsub q3 (Finite a))))
       \<and> fle (fsub (Finite a) (fmul (Finite 1.5) (fsub q3 (Finite a)))) q3
       \<and> fle q3 (fadd q3 (fmul (Finite 1.5) (fsub q3 (Finite a))))"
  using assms by (cases q3) (simp_all add: fsub_def field_simps)

text \<open>The bounds around an infinite Q1 are NaN, and nothing lies within them.\<close>

lemma bounds_infinite_q1:
  assumes "fle PosInf q3"
  shows "fsub PosInf (fmul (Finite 1.5) (fsub q3 PosInf)) = NaN
       \<and> fadd q3 (fmul (Finite 1.5) (fsub q3 PosInf)) = NaN"
  using assms by (cases q3) (simp_all add: fsub_def)

lemma remove_outliers_finite_q1:
  assumes len: "4 \<le> length prices" and nn: "NaN \<notin> set prices"
    and fin: "is_finite (quartile1 prices)"
    and ro: "remove_outliers prices = Inr kept"
  shows "quartile1 prices \<in> set kept \<and> quartile3 prices \<in> set kept"
proof -
  obtain a where a: "quartile1 prices = Finite a" using fin by (cases "quartile1 prices") simp_all
  have le: "fle (Finite a) (quartile3 prices)"
    using quartile1_le_quartile3[OF len nn] by (simp add: a)
  note b = bounds_finite_q1[OF le]
  have k: "kept = filter (\<lambda>p. fle (fsub (Finite a)
                                   (fmul (Finite 1.5) (fsub (quartile3 prices) (Finite a)))) p
                          \<and> fle p (fadd (quartile3 prices)
                                   (fmul (Finite 1.5) (fsub (quartile3 prices) (Finite a)))))
                  prices"
    using ro len by (simp add: remove_outliers_large a)
  have "Finite a \<in> set prices" using quartile1_in_set[OF len] by (simp add: a)
  then have "Finite a \<in> set kept" using b by (subst k) simp
  moreover have "quartile3 prices \<in> set kept"
    using quartile3_in_set[OF len] b by (subst k) simp
  ultimately show ?thesis by (simp add: a)
qed

lemma remove_outliers_infinite_q1:
  assumes len: "4 \<le> length prices" and nn: "NaN \<notin> set prices"
    and inf: "quartile1 prices = PosInf"
  shows "remove_outliers prices = Inr []"
proof -
  have le: "fle PosInf (quartile3 prices)"
    using quartile1_le_quartile3[OF len nn] by (simp add: inf)
  note b = bounds_infinite_q1[OF le]
  show ?thesis
    using len b by (simp add: remove_outliers_large inf)
qed

subsection \<open>Minimum, maximum, mean and rounding\<close>

lemma extract_prices_positive: "\<forall>p\<in>set (extract_prices py_float items). flt (Finite 0) p"
  by (induction items) (auto simp: Let_def split: option.splits)

lemma is_finite_cases: "is_finite y \<Longrightarrow> \<exists>c. y = Finite c"
  by (cases y) simp_all

lemma fold_keep_smaller:
  "NaN \<notin> set (x # xs) \<Longrightarrow>
     fold keep_smaller xs x \<in> set (x # xs) \<and> (\<forall>y\<in>set (x # xs). fle (fold keep_smaller xs x) y)"
proof (induction xs arbitrary: x)
  case Nil
  then show ?case by (simp add: fle_refl)
next
  case (Cons z zs)
  have xn: "x \<noteq> NaN" and zn: "z \<noteq> NaN" and zsn: "NaN \<notin> set zs" using Cons.prems by auto
  let ?c = "keep_smaller z x"
  have c: "?c = x \<or> ?c = z" by (simp add: keep_smaller_def)
  have cx: "fle ?c x" and cz: "fle ?c z"
    using xn zn by (auto simp: keep_smaller_def flt_imp_fle fle_refl not_flt_iff)
  have "NaN \<notin> set (?c # zs)" using c xn zn zsn by auto
  from Cons.IH[OF this]
  have m: "fold keep_smaller zs ?c \<in> set (?c # zs)"
    and le: "\<forall>y\<in>set (?c # zs). fle (fold keep_smaller zs ?c) y" by auto
  have lec: "fle (fold keep_smaller zs ?c) ?c" using le by simp
  have "fle (fold keep_smaller zs ?c) x" "fle (fold keep_smaller zs ?c) z"
    using lec cx cz fle_trans by blast+
  with m le c show ?case by auto
qed

lemma fold_keep_larger:
  "NaN \<notin> set (x # xs) \<Longrightarrow>
     fold keep_larger xs x \<in> set (x # xs) \<and> (\<forall>y\<in>set (x # xs). fle y (fold keep_larger xs x))"
proof (induction xs arbitrary: x)
  case Nil
  then show ?case by (simp add: fle_refl)
next
  case (Cons z zs)
  have xn: "x \<noteq> NaN" and zn: "z \<noteq> NaN" and zsn: "NaN \<notin> set zs" using Cons.prems by auto
  let ?c = "keep_larger z x"
  have c: "?c = x \<or> ?c = z" by (simp add: keep_larger_def)
  have cx: "fle x ?c" and cz: "fle z ?c"
    using xn zn by (auto simp: keep_larger_def flt_imp_fle fle_refl not_flt_iff)
  have "NaN \<notin> set (?c # zs)" using c xn zn zsn by auto
  from Cons.IH[OF this]
  have m: "fold keep_larger zs ?c \<in> set (?c # zs)"
    and le: "\<forall>y\<in>set (?c # zs). fle y (fold keep_larger zs ?c)" by auto
  have lec: "fle ?c (fold keep_larger zs ?c)" using le by simp
  have "fle x (fold keep_larger zs ?c)" "fle z (fold keep_larger zs ?c)"
    using lec cx cz fle_trans by blast+
  with m le c show ?case by auto
qed

lemma py_min_lower:
  assumes "xs \<noteq> []" and "NaN \<notin> set xs"
  shows "\<exists>m. py_min xs = Inr m \<and> m \<in> set xs \<and> (\<forall>y\<in>set xs. fle m y)"
proof (cases xs)
  case Nil
  with assms show ?thesis by simp
next
  case (Cons x zs)
  with fold_keep_smaller[of x zs] assms(2) show ?thesis by simp
qed

lemma py_max_upper:
  assumes "xs \<noteq> []" and "NaN \<notin> set xs"
  shows "\<exists>m. py_max xs = Inr m \<and> m \<in> set xs \<and> (\<forall>y\<in>set xs. fle y m)"
proof (cases xs)
  case Nil
  with assms show ?thesis by simp
next
  case (Cons x zs)
  with fold_keep_larger[of x zs] assms(2) show ?thesis by simp
qed

lemma sum_list_upper: "(\<forall>x\<in>set xs. x \<le> (b::real)) \<Longrightarrow> sum_list xs \<le> real (length xs) * b"
  by (induction xs) (auto simp: algebra_simps)

lemma sum_list_lower: "(\<forall>x\<in>set xs. (a::real) \<le> x) \<Longrightarrow> real (length xs) * a \<le> sum_list xs"
  by (induction xs) (auto simp: algebra_simps)

lemma fold_fadd_PosInf:
  "\<forall>x\<in>set xs. x = PosInf \<Longrightarrow> acc = PosInf \<or> (is_finite acc \<and> xs \<noteq> [])
     \<Longrightarrow> fold (\<lambda>x total. fadd total x) xs acc = PosInf"
proof (induction xs arbitrary: acc)
  case Nil
  then show ?case by simp
next
  case (Cons x xs)
  have x: "x = PosInf" using Cons.prems(1) by simp
  have "fadd acc x = PosInf" using Cons.prems(2) x by (cases acc) auto
  then show ?case using Cons.IH[of "fadd acc x"] Cons.prems(1) by simp
qed

text \<open>The mean of a non-empty list of positive prices lies between any lower and upper bound.\<close>

lemma mean_between:
  assumes ne: "xs \<noteq> []" and pos: "\<forall>p\<in>set xs. flt (Finite 0) p"
    and lo: "lo \<in> set xs" "\<forall>y\<in>set xs. fle lo y"
    and hi: "hi \<in> set xs" "\<forall>y\<in>set xs. fle y hi"
  shows "\<exists>av. statistics_mean xs = Inr av \<and> fle lo av \<and> fle av hi"
proof (cases "list_all is_finite xs")
  case True
  then have fin: "\<forall>y\<in>set xs. is_finite y" by (simp add: list_all_iff)
  obtain a where a: "lo = Finite a" using fin lo(1) is_finite_cases by blast
  obtain b where b: "hi = Finite b" using fin hi(1) is_finite_cases by blast
  have la: "\<forall>r\<in>set (map finite_value xs). a \<le> r"
  proof
    fix r assume "r \<in> set (map finite_value xs)"
    then obtain y where y: "y \<in> set xs" "r = finite_value y" by auto
    then obtain c where "y = Finite c" using fin is_finite_cases by blast
    with y lo(2) a show "a \<le> r" by auto
  qed
  have ub: "\<forall>r\<in>set (map finite_value xs). r \<le> b"
  proof
    fix r assume "r \<in> set (map finite_value xs)"
    then obtain y where y: "y \<in> set xs" "r = finite_value y" by auto
    then obtain c where "y = Finite c" using fin is_finite_cases by blast
    with y hi(2) b show "r \<le> b" by auto
  qed
  have pos_len: "0 < real (length xs)" using ne by simp
  have "real (length xs) * a \<le> sum_list (map finite_value xs)"
    using sum_list_lower[OF la] by simp
  moreover have "sum_list (map finite_value xs) \<le> real (length xs) * b"
    using sum_list_upper[OF ub] by simp
  ultimately have "a \<le> sum_list (map finite_value xs) / real (length xs)"
    "sum_list (map finite_value xs) / real (length xs) \<le> b"
    using pos_len by (simp_all add: field_simps)
  then show ?thesis using ne True a b by (simp add: statistics_mean_def)
next
  case False
  let ?nf = "filter (\<lambda>x. \<not> is_finite x) xs"
  have nfne: "?nf \<noteq> []" using False by (auto simp: list_all_iff filter_empty_conv)
  have allinf: "\<forall>x\<in>set ?nf. x = PosInf" using pos by (auto simp: positive_cases)
  have mean: "statistics_mean xs = Inr PosInf"
    using ne False fold_fadd_PosInf[OF allinf, of "Finite 0"] nfne
    by (simp add: statistics_mean_def)
  obtain z where "z \<in> set ?nf" using nfne by (cases ?nf) auto
  then have z: "z \<in> set xs" "z = PosInf" using allinf by auto
  have "fle PosInf hi" using hi(2) z by auto
  then have h: "hi = PosInf" by (cases hi) simp_all
  have "lo \<noteq> NaN" using pos lo(1) by (auto simp: positive_cases)
  then have "fle lo PosInf" by (cases lo) simp_all
  with mean h show ?thesis by simp
qed


lemma round_half_even_mono: "x \<le> y \<Longrightarrow> round_half_even x \<le> round_half_even y"
proof -
  assume xy: "x \<le> y"
  then have fl: "\<lfloor>x\<rfloor> \<le> \<lfloor>y\<rfloor>" by (rule floor_mono)
  show ?thesis
  proof (cases "\<lfloor>x\<rfloor> = \<lfloor>y\<rfloor>")
    case True
    with xy show ?thesis unfolding round_half_even_def Let_def by auto
  next
    case False
    with fl have lt: "\<lfloor>x\<rfloor> + 1 \<le> \<lfloor>y\<rfloor>" by simp
    have a: "round_half_even x \<le> \<lfloor>x\<rfloor> + 1" unfolding round_half_even_def Let_def by auto
    have b: "\<lfloor>y\<rfloor> \<le> round_half_even y" unfolding round_half_even_def Let_def by auto
    from a lt b show ?thesis by linarith
  qed
qed

lemma py_round2_mono: "fle x y \<Longrightarrow> fle (py_round2 x) (py_round2 y)"
proof (cases x; cases y)
  fix a b assume "fle x y" "x = Finite a" "y = Finite b"
  then show ?thesis
    using round_half_even_mono[of "a * 100" "b * 100"] by (simp add: divide_right_mono)
qed simp_all

subsection \<open>What \<open>get_price_data\<close> returns\<close>

lemma price_range_large:
  "4 \<le> length used \<Longrightarrow> price_range used = Inr (quartile1 used, quartile3 used)"
  using quartile_idx[of "length used"]
  by (simp add: price_range_def bind_exc_def py_index_def Let_def quartile1_def quartile3_def
      length_py_sorted)

lemma price_range_small_eq:
  "length used < 4 \<Longrightarrow> py_min used = Inr lo \<Longrightarrow> py_max used = Inr hi
     \<Longrightarrow> price_range used = Inr (lo, hi)"
  by (simp add: price_range_def bind_exc_def)

lemma price_range_total: "used \<noteq> [] \<Longrightarrow> \<exists>lo hi. price_range used = Inr (lo, hi)"
proof (cases "4 \<le> length used")
  case True
  then show ?thesis by (simp add: price_range_large)
next
  case False
  assume "used \<noteq> []"
  then obtain x xs where "used = x # xs" by (cases used) auto
  with False show ?thesis by (simp add: price_range_def bind_exc_def)
qed

lemma statistics_mean_total: "used \<noteq> [] \<Longrightarrow> \<exists>av. statistics_mean used = Inr av"
  by (simp add: statistics_mean_def)

lemma price_statistics_used:
  assumes ne: "prices \<noteq> []"
    and ro: "remove_outliers prices = Inr kept"
    and used: "used = (if kept = [] then prices else kept)"
    and range: "price_range used = Inr (lo, hi)"
    and mean: "statistics_mean used = Inr av"
  shows "price_statistics n prices =
           Inr \<lparr>min_price = Some (py_round2 lo),
                max_price = Some (py_round2 hi),
                avg_price = Some (py_round2 av),
                currency = ''USD'',
                source_count = int (length used)\<rparr>"
proof -
  have "price_statistics n prices =
          bind_exc (statistics_mean used) (\<lambda>avg_price.
            bind_exc (price_range used) (\<lambda>(min_price, max_price).
              Inr \<lparr>min_price = Some (py_round2 min_price),
                   max_price = Some (py_round2 max_price),
                   avg_price = Some (py_round2 avg_price),
                   currency = ''USD'',
                   source_count = int (length used)\<rparr>))"
    using ne ro used by (simp add: price_statistics_def bind_exc_def Let_def)
  then show ?thesis unfolding mean range by (simp add: bind_exc_def)
qed

lemma get_price_data_results:
  "get_price_data py_float (Inr (Some shopping_results)) =
     (if shopping_results = [] then Inr (PriceDataResult_of_count 0)
      else case price_statistics (length shopping_results)
                  (extract_prices py_float shopping_results) of
             Inl e \<Rightarrow> Inr (PriceDataResult_of_count 0)
           | Inr r \<Rightarrow> Inr r)"
  by (simp add: get_price_data_def get_price_data_try_def bind_exc_def)

lemma get_price_data_no_results:
  "get_price_data py_float (Inr None) = Inr (PriceDataResult_of_count 0)"
  by (simp add: get_price_data_def get_price_data_try_def bind_exc_def)

lemma get_price_data_failed:
  "get_price_data py_float (Inl e) = Inr (PriceDataResult_of_count 0)"
  by (simp add: get_price_data_def get_price_data_try_def bind_exc_def)

lemma extract_prices_nonempty_results:
  "extract_prices py_float shopping_results \<noteq> [] \<Longrightarrow> shopping_results \<noteq> []"
  by (cases shopping_results) simp_all

lemma get_price_data_priced:
  assumes ne: "extract_prices py_float shopping_results \<noteq> []"
    and ro: "remove_outliers (extract_prices py_float shopping_results) = Inr kept"
    and used: "used = (if kept = [] then extract_prices py_float shopping_results else kept)"
    and range: "price_range used = Inr (lo, hi)"
    and mean: "statistics_mean used = Inr av"
  shows "get_price_data py_float (Inr (Some shopping_results)) =
           Inr \<lparr>min_price = Some (py_round2 lo),
                max_price = Some (py_round2 hi),
                avg_price = Some (py_round2 av),
                currency = ''USD'',
                source_count = int (length used)\<rparr>"
  using extract_prices_nonempty_results[OF ne] price_statistics_used[OF ne ro used range mean]
  by (simp add: get_price_data_results)

text \<open>The order of the three values before rounding, for a non-empty list of positive prices.\<close>

lemma range_and_mean_order:
  assumes ne: "used \<noteq> []" and pos: "\<forall>p\<in>set used. flt (Finite 0) p"
    and range: "price_range used = Inr (lo, hi)"
    and mean: "statistics_mean used = Inr av"
  shows "fle lo hi \<and> (length used < 4 \<longrightarrow> fle lo av \<and> fle av hi)"
proof (cases "4 \<le> length used")
  case True
  have "NaN \<notin> set used" using pos by (rule positive_not_NaN)
  from quartile1_le_quartile3[OF True this] range True show ?thesis
    by (simp add: price_range_large)
next
  case False
  then have small: "length used < 4" by simp
  have nn: "NaN \<notin> set used" using pos by (rule positive_not_NaN)
  obtain mn where mn: "py_min used = Inr mn" "mn \<in> set used" "\<forall>y\<in>set used. fle mn y"
    using py_min_lower[OF ne nn] by blast
  obtain mx where mx: "py_max used = Inr mx" "mx \<in> set used" "\<forall>y\<in>set used. fle y mx"
    using py_max_upper[OF ne nn] by blast
  have "price_range used = Inr (mn, mx)" using small mn(1) mx(1) by (rule price_range_small_eq)
  with range have eq: "lo = mn" "hi = mx" by simp_all
  obtain av' where "statistics_mean used = Inr av'" "fle mn av'" "fle av' mx"
    using mean_between[OF ne pos mn(2,3) mx(2,3)] by blast
  with mean have "fle lo av" "fle av hi" by (simp_all add: eq)
  moreover have "fle lo hi" using mn(3) mx(2) by (simp add: eq)
  ultimately show ?thesis by simp
qed

section \<open>The claims on the price statistics\<close>

text \<open>
  C9, as the code has it. For every non-empty list of finite prices \<open>_remove_outliers\<close>
  returns, without raising, a non-empty list: with four or more prices the values at the
  Q1 and the Q3 position lie within the bounds \<open>[Q1 - 1.5 * IQR, Q3 + 1.5 * IQR]\<close> and are
  kept, so the test \<open>if not filtered_prices\<close> of \<open>get_price_data\<close> is false on finite
  prices. A price can also be infinite, since \<open>inf > 0\<close>. On a non-empty list of positive
  prices the filter returns the empty list exactly when there are four or more prices and
  the value at the Q1 position is infinite: the IQR and both bounds are then NaN, and the
  fall-back branch is taken.
\<close>

theorem remove_outliers_nonempty:
  "(prices \<noteq> [] \<and> list_all is_finite prices \<longrightarrow>
      (\<exists>kept. remove_outliers prices = Inr kept \<and> kept \<noteq> []
         \<and> (if kept = [] then prices else kept) = kept
         \<and> (4 \<le> length prices \<longrightarrow>
              (let q1 = quartile1 prices; q3 = quartile3 prices; iqr = fsub q3 q1;
                   lower_bound = fsub q1 (fmul (Finite 1.5) iqr);
                   upper_bound = fadd q3 (fmul (Finite 1.5) iqr)
               in fle lower_bound q1 \<and> fle q1 upper_bound
                  \<and> fle lower_bound q3 \<and> fle q3 upper_bound
                  \<and> q1 \<in> set kept \<and> q3 \<in> set kept))))
   \<and> (prices \<noteq> [] \<and> (\<forall>p\<in>set prices. flt (Finite 0) p) \<longrightarrow>
        (remove_outliers prices = Inr [] \<longleftrightarrow>
           4 \<le> length prices \<and> quartile1 prices = PosInf))"
proof (intro conjI impI)
  assume h: "prices \<noteq> [] \<and> list_all is_finite prices"
  then have ne: "prices \<noteq> []" and fin: "list_all is_finite prices" by simp_all
  have nn: "NaN \<notin> set prices" using fin by (rule finite_not_NaN)
  obtain kept where ro: "remove_outliers prices = Inr kept"
    using remove_outliers_total by blast
  have large: "let q1 = quartile1 prices; q3 = quartile3 prices; iqr = fsub q3 q1;
                   lower_bound = fsub q1 (fmul (Finite 1.5) iqr);
                   upper_bound = fadd q3 (fmul (Finite 1.5) iqr)
               in fle lower_bound q1 \<and> fle q1 upper_bound
                  \<and> fle lower_bound q3 \<and> fle q3 upper_bound
                  \<and> q1 \<in> set kept \<and> q3 \<in> set kept" if len: "4 \<le> length prices"
  proof -
    have "is_finite (quartile1 prices)"
      using quartile1_in_set[OF len] fin by (simp add: list_all_iff)
    then obtain a where a: "quartile1 prices = Finite a" using is_finite_cases by blast
    have fq: "is_finite (quartile1 prices)" by (simp add: a)
    have le: "fle (Finite a) (quartile3 prices)"
      using quartile1_le_quartile3[OF len nn] by (simp add: a)
    from bounds_finite_q1[OF le] remove_outliers_finite_q1[OF len nn fq ro]
    show ?thesis by (simp add: Let_def a)
  qed
  have kne: "kept \<noteq> []"
  proof (cases "4 \<le> length prices")
    case True
    from large[OF True] have "quartile1 prices \<in> set kept" by (simp add: Let_def)
    then show ?thesis by auto
  next
    case False
    with ro ne show ?thesis by (simp add: remove_outliers_small)
  qed
  show "\<exists>kept. remove_outliers prices = Inr kept \<and> kept \<noteq> []
         \<and> (if kept = [] then prices else kept) = kept
         \<and> (4 \<le> length prices \<longrightarrow>
              (let q1 = quartile1 prices; q3 = quartile3 prices; iqr = fsub q3 q1;
                   lower_bound = fsub q1 (fmul (Finite 1.5) iqr);
                   upper_bound = fadd q3 (fmul (Finite 1.5) iqr)
               in fle lower_bound q1 \<and> fle q1 upper_bound
                  \<and> fle lower_bound q3 \<and> fle q3 upper_bound
                  \<and> q1 \<in> set kept \<and> q3 \<in> set kept))"
    using ro kne large by (intro exI[of _ kept] conjI impI) simp_all
next
  assume h: "prices \<noteq> [] \<and> (\<forall>p\<in>set prices. flt (Finite 0) p)"
  then have ne: "prices \<noteq> []" and pos: "\<forall>p\<in>set prices. flt (Finite 0) p" by simp_all
  have nn: "NaN \<notin> set prices" using pos by (rule positive_not_NaN)
  show "remove_outliers prices = Inr [] \<longleftrightarrow> 4 \<le> length prices \<and> quartile1 prices = PosInf"
  proof
    assume e: "remove_outliers prices = Inr []"
    have len: "4 \<le> length prices"
    proof (rule ccontr)
      assume "\<not> 4 \<le> length prices"
      with e ne show False by (simp add: remove_outliers_small)
    qed
    have "quartile1 prices = PosInf"
    proof (rule ccontr)
      assume n: "quartile1 prices \<noteq> PosInf"
      have "flt (Finite 0) (quartile1 prices)" using quartile1_in_set[OF len] pos by simp
      with n have "is_finite (quartile1 prices)" by (auto simp: positive_cases)
      from remove_outliers_finite_q1[OF len nn this e] show False by simp
    qed
    with len show "4 \<le> length prices \<and> quartile1 prices = PosInf" by simp
  next
    assume "4 \<le> length prices \<and> quartile1 prices = PosInf"
    then show "remove_outliers prices = Inr []"
      using nn by (simp add: remove_outliers_infinite_q1)
  qed
qed

lemma py_sorted_example:
  "py_sorted [Finite 100, Finite 110, Finite 105, Finite 95, Finite 1000, Finite 90]
     = [Finite 90, Finite 95, Finite 100, Finite 105, Finite 110, Finite 1000]"
  by (simp add: py_sorted_def)

theorem remove_outliers_nonempty_witness:
  "remove_outliers [Finite 100, Finite 110, Finite 105, Finite 95, Finite 1000, Finite 90]
     = Inr [Finite 100, Finite 110, Finite 105, Finite 95, Finite 90]
   \<and> quartile1 [Finite 100, Finite 110, Finite 105, Finite 95, Finite 1000, Finite 90] = Finite 95
   \<and> quartile3 [Finite 100, Finite 110, Finite 105, Finite 95, Finite 1000, Finite 90] = Finite 110
   \<and> (\<exists>kept. remove_outliers
                [Finite 100, Finite 110, Finite 105, Finite 95, Finite 1000, Finite 90] = Inr kept
         \<and> kept \<noteq> [] \<and> Finite 95 \<in> set kept \<and> Finite 110 \<in> set kept)
   \<and> quartile1 [Finite 5, PosInf, PosInf, PosInf] = PosInf
   \<and> remove_outliers [Finite 5, PosInf, PosInf, PosInf] = Inr []"
proof -
  let ?ps = "[Finite 100, Finite 110, Finite 105, Finite 95, Finite 1000, Finite 90]"
  let ?qs = "[Finite 5, PosInf, PosInf, PosInf]"
  have h1: "?ps \<noteq> [] \<and> list_all is_finite ?ps" by simp
  have ro: "remove_outliers ?ps
     = Inr [Finite 100, Finite 110, Finite 105, Finite 95, Finite 90]"
    by (simp add: remove_outliers_def bind_exc_def py_index_def py_sorted_example fsub_def)
  have q: "quartile1 ?ps = Finite 95" "quartile3 ?ps = Finite 110"
    by (simp_all add: quartile1_def quartile3_def py_sorted_example)
  have h2: "?qs \<noteq> [] \<and> (\<forall>p\<in>set ?qs. flt (Finite 0) p)" by simp
  have q2: "quartile1 ?qs = PosInf" by (simp add: quartile1_def py_sorted_def)
  show ?thesis
    using remove_outliers_nonempty[of ?ps] remove_outliers_nonempty[of ?qs] h1 h2 ro q q2
    by (simp add: Let_def)
qed

theorem remove_outliers_nonempty_counterexample:
  "extract_prices (\<lambda>s. if s = ''Infinity'' then Some PosInf else None)
     [\<lparr>extracted_price = None, price = Some ''Infinity''\<rparr>,
      \<lparr>extracted_price = None, price = Some ''Infinity''\<rparr>,
      \<lparr>extracted_price = None, price = Some ''Infinity''\<rparr>,
      \<lparr>extracted_price = None, price = Some ''Infinity''\<rparr>]
     = [PosInf, PosInf, PosInf, PosInf]
   \<and> [PosInf, PosInf, PosInf, PosInf] \<noteq> []
   \<and> flt (Finite 0) PosInf
   \<and> fsub PosInf PosInf = NaN
   \<and> remove_outliers [PosInf, PosInf, PosInf, PosInf] = Inr []"
proof -
  have strip: "py_strip ''Infinity'' = ''Infinity''"
    by (simp add: py_strip_def py_isspace_def)
  have lower: "py_lower ''Infinity'' = ''infinity''"
    by (simp add: py_lower_def lower_char_def)
  have parse: "parse_price_string (\<lambda>s. if s = ''Infinity'' then Some PosInf else None)
                 (Some ''Infinity'') = Some PosInf"
    by (simp add: parse_price_string_def remove_char_def strip lower)
  have ro: "remove_outliers [PosInf, PosInf, PosInf, PosInf] = Inr []"
    by (simp add: remove_outliers_def bind_exc_def py_index_def py_sorted_def fsub_def)
  show ?thesis using ro by (simp add: parse fsub_def)
qed

text \<open>
  C4. Whenever the results hold a valid price, \<open>get_price_data\<close> reports as
  \<open>source_count\<close> the size of the list it goes on with: the filtered list, or, when the
  filter returns the empty list, the original list of valid prices. So a filter that
  removes every price leaves the count at the number of valid prices, and the count is
  never zero. Four prices of \<open>inf\<close> are such a list: the filter removes them all and the
  count is 4.
\<close>

theorem outlier_fallback_sample_count:
  assumes "extract_prices py_float shopping_results \<noteq> []"
  shows "\<exists>kept r.
           remove_outliers (extract_prices py_float shopping_results) = Inr kept
           \<and> get_price_data py_float (Inr (Some shopping_results)) = Inr r
           \<and> source_count r =
               int (length (if kept = [] then extract_prices py_float shopping_results else kept))
           \<and> (kept = [] \<longrightarrow>
                source_count r = int (length (extract_prices py_float shopping_results)))
           \<and> 0 < source_count r"
proof -
  let ?prices = "extract_prices py_float shopping_results"
  obtain kept where ro: "remove_outliers ?prices = Inr kept"
    using remove_outliers_total by blast
  define used where "used = (if kept = [] then ?prices else kept)"
  have une: "used \<noteq> []" using assms by (simp add: used_def)
  obtain lo hi where range: "price_range used = Inr (lo, hi)"
    using price_range_total[OF une] by blast
  obtain av where mean: "statistics_mean used = Inr av"
    using statistics_mean_total[OF une] by blast
  note r = get_price_data_priced[OF assms ro used_def range mean]
  show ?thesis
    by (intro exI[of _ kept] exI conjI impI, rule ro, rule r)
       (use une in \<open>simp_all add: used_def\<close>)
qed

theorem outlier_fallback_sample_count_witness:
  "extract_prices (\<lambda>s. None)
     [\<lparr>extracted_price = Some PosInf, price = None\<rparr>,
      \<lparr>extracted_price = Some PosInf, price = None\<rparr>,
      \<lparr>extracted_price = Some PosInf, price = None\<rparr>,
      \<lparr>extracted_price = Some PosInf, price = None\<rparr>]
     = [PosInf, PosInf, PosInf, PosInf]
   \<and> remove_outliers [PosInf, PosInf, PosInf, PosInf] = Inr []
   \<and> get_price_data (\<lambda>s. None) (Inr (Some
     [\<lparr>extracted_price = Some PosInf, price = None\<rparr>,
      \<lparr>extracted_price = Some PosInf, price = None\<rparr>,
      \<lparr>extracted_price = Some PosInf, price = None\<rparr>,
      \<lparr>extracted_price = Some PosInf, price = None\<rparr>]))
     = Inr \<lparr>min_price = Some PosInf, max_price = Some PosInf, avg_price = Some PosInf,
            currency = ''USD'', source_count = 4\<rparr>
   \<and> (\<exists>r. get_price_data (\<lambda>s. None) (Inr (Some
     [\<lparr>extracted_price = Some (Finite 100), price = None\<rparr>,
      \<lparr>extracted_price = Some (Finite 110), price = None\<rparr>,
      \<lparr>extracted_price = Some (Finite 105), price = None\<rparr>,
      \<lparr>extracted_price = Some (Finite 95), price = None\<rparr>,
      \<lparr>extracted_price = Some (Finite 1000), price = None\<rparr>,
      \<lparr>extracted_price = Some (Finite 90), price = None\<rparr>]))
       = Inr r \<and> source_count r = 5)"
proof -
  let ?is = "[\<lparr>extracted_price = Some PosInf, price = None\<rparr>,
      \<lparr>extracted_price = Some PosInf, price = None\<rparr>,
      \<lparr>extracted_price = Some PosInf, price = None\<rparr>,
      \<lparr>extracted_price = Some PosInf, price = None\<rparr>]"
  let ?rs = "[\<lparr>extracted_price = Some (Finite 100), price = None\<rparr>,
      \<lparr>extracted_price = Some (Finite 110), price = None\<rparr>,
      \<lparr>extracted_price = Some (Finite 105), price = None\<rparr>,
      \<lparr>extracted_price = Some (Finite 95), price = None\<rparr>,
      \<lparr>extracted_price = Some (Finite 1000), price = None\<rparr>,
      \<lparr>extracted_price = Some (Finite 90), price = None\<rparr>]"
  have exi: "extract_prices (\<lambda>s. None) ?is = [PosInf, PosInf, PosInf, PosInf]" by simp
  have nei: "extract_prices (\<lambda>s. None) ?is \<noteq> []" by simp
  have roi: "remove_outliers [PosInf, PosInf, PosInf, PosInf] = Inr []"
    by (simp add: remove_outliers_def bind_exc_def py_index_def py_sorted_def fsub_def)
  have rng: "price_range [PosInf, PosInf, PosInf, PosInf] = Inr (PosInf, PosInf)"
    by (simp add: price_range_def bind_exc_def py_index_def py_sorted_def)
  have mean: "statistics_mean [PosInf, PosInf, PosInf, PosInf] = Inr PosInf"
    by (simp add: statistics_mean_def)
  have full: "get_price_data (\<lambda>s. None) (Inr (Some ?is))
     = Inr \<lparr>min_price = Some PosInf, max_price = Some PosInf, avg_price = Some PosInf,
            currency = ''USD'', source_count = 4\<rparr>"
    using get_price_data_priced[OF nei, of "[]" "[PosInf, PosInf, PosInf, PosInf]" PosInf PosInf
        PosInf] roi rng mean
    unfolding exi by simp
  have ex: "extract_prices (\<lambda>s. None) ?rs
      = [Finite 100, Finite 110, Finite 105, Finite 95, Finite 1000, Finite 90]"
    by simp
  have ne: "extract_prices (\<lambda>s. None) ?rs \<noteq> []" by simp
  have ro: "remove_outliers [Finite 100, Finite 110, Finite 105, Finite 95, Finite 1000, Finite 90]
      = Inr [Finite 100, Finite 110, Finite 105, Finite 95, Finite 90]"
    by (simp add: remove_outliers_def bind_exc_def py_index_def py_sorted_example fsub_def)
  have a: "\<exists>r. get_price_data (\<lambda>s. None) (Inr (Some ?rs)) = Inr r \<and> source_count r = 5"
    using outlier_fallback_sample_count[OF ne] ro unfolding ex by auto
  have b: "\<exists>r. get_price_data (\<lambda>s. None) (Inr (Some ?is)) = Inr r \<and> source_count r = 4"
    using outlier_fallback_sample_count[OF nei] roi unfolding exi by auto
  show ?thesis using exi roi full a b by simp
qed

text \<open>
  C1, as the code has it. In every result of \<open>get_price_data\<close> that carries prices the
  sample count is positive and, after rounding, \<open>min_price \<le> max_price\<close>. When fewer than
  four prices were used, the two are the minimum and the maximum of those prices and
  \<open>min_price \<le> avg_price \<le> max_price\<close>. With four or more, the two are the values at the
  Q1 and Q3 positions, and the mean is not bound to lie between them.
\<close>

theorem price_summary_order:
  assumes res: "get_price_data py_float search = Inr r"
    and lo: "min_price r = Some lo" and hi: "max_price r = Some hi"
    and av: "avg_price r = Some av"
  shows "0 < source_count r \<and> fle lo hi
         \<and> (source_count r < 4 \<longrightarrow> fle lo av \<and> fle av hi)"
proof -
  have no_count: False if "r = PriceDataResult_of_count n" for n
    using that lo by (simp add: PriceDataResult_of_count_def)
  obtain shopping_results where s: "search = Inr (Some shopping_results)"
  proof (cases search)
    case (Inl e)
    with res have "r = PriceDataResult_of_count 0" by (simp add: get_price_data_failed)
    then show ?thesis using no_count by blast
  next
    case (Inr results)
    show ?thesis
    proof (cases results)
      case None
      with res Inr have "r = PriceDataResult_of_count 0"
        by (simp add: get_price_data_no_results)
      then show ?thesis using no_count by blast
    next
      case (Some rs)
      with Inr that show ?thesis by simp
    qed
  qed
  let ?prices = "extract_prices py_float shopping_results"
  have rne: "shopping_results \<noteq> []"
  proof
    assume "shopping_results = []"
    with res s have "r = PriceDataResult_of_count 0" by (simp add: get_price_data_results)
    then show False by (rule no_count)
  qed
  have pne: "?prices \<noteq> []"
  proof
    assume "?prices = []"
    with res s rne have "r = PriceDataResult_of_count (int (length shopping_results))"
      by (simp add: get_price_data_results price_statistics_def)
    then show False by (rule no_count)
  qed
  obtain kept where ro: "remove_outliers ?prices = Inr kept" and sub: "set kept \<subseteq> set ?prices"
    using remove_outliers_total by blast
  define used where "used = (if kept = [] then ?prices else kept)"
  have une: "used \<noteq> []" using pne by (simp add: used_def)
  have pos: "\<forall>p\<in>set used. flt (Finite 0) p"
    using extract_prices_positive[of py_float shopping_results] sub by (auto simp: used_def)
  obtain lo0 hi0 where range: "price_range used = Inr (lo0, hi0)"
    using price_range_total[OF une] by blast
  obtain av0 where mean: "statistics_mean used = Inr av0"
    using statistics_mean_total[OF une] by blast
  note eq = get_price_data_priced[OF pne ro used_def range mean]
  from res eq s have r: "r = \<lparr>min_price = Some (py_round2 lo0),
                max_price = Some (py_round2 hi0),
                avg_price = Some (py_round2 av0),
                currency = ''USD'',
                source_count = int (length used)\<rparr>"
    by simp
  have v: "lo = py_round2 lo0" "hi = py_round2 hi0" "av = py_round2 av0"
    using lo hi av by (simp_all add: r)
  have cnt: "source_count r = int (length used)" by (simp add: r)
  have pos_cnt: "0 < source_count r" using une by (simp add: cnt)
  note ord = range_and_mean_order[OF une pos range mean]
  have "fle lo hi" unfolding v using ord by (simp add: py_round2_mono)
  moreover have "fle lo av \<and> fle av hi" if "source_count r < 4"
  proof -
    from that have "length used < 4" by (simp add: cnt)
    with ord show ?thesis unfolding v by (simp add: py_round2_mono)
  qed
  ultimately show ?thesis using pos_cnt by simp
qed

lemma round_half_even_int: "round_half_even (of_int n) = n"
  by (simp add: round_half_even_def)

theorem price_summary_order_witness:
  "get_price_data (\<lambda>s. None)
     (Inr (Some [\<lparr>extracted_price = Some (Finite 90), price = None\<rparr>,
                 \<lparr>extracted_price = Some (Finite 100), price = None\<rparr>,
                 \<lparr>extracted_price = Some (Finite 125), price = None\<rparr>]))
     = Inr \<lparr>min_price = Some (Finite 90), max_price = Some (Finite 125),
            avg_price = Some (Finite 105), currency = ''USD'', source_count = 3\<rparr>
   \<and> fle (Finite 90) (Finite 105) \<and> fle (Finite 105) (Finite 125)"
proof -
  let ?rs = "[\<lparr>extracted_price = Some (Finite 90), price = None\<rparr>,
                 \<lparr>extracted_price = Some (Finite 100), price = None\<rparr>,
                 \<lparr>extracted_price = Some (Finite 125), price = None\<rparr>]"
  have ex: "extract_prices (\<lambda>s. None) ?rs = [Finite 90, Finite 100, Finite 125]" by simp
  have ro: "remove_outliers [Finite 90, Finite 100, Finite 125]
      = Inr [Finite 90, Finite 100, Finite 125]"
    by (simp add: remove_outliers_def)
  have ne: "extract_prices (\<lambda>s. None) ?rs \<noteq> []" by simp
  have rng: "price_range [Finite 90, Finite 100, Finite 125] = Inr (Finite 90, Finite 125)"
    by (simp add: price_range_def bind_exc_def keep_smaller_def keep_larger_def)
  have mean: "statistics_mean [Finite 90, Finite 100, Finite 125] = Inr (Finite 105)"
    by (simp add: statistics_mean_def)
  have rh: "round_half_even 9000 = 9000" "round_half_even 12500 = 12500"
    "round_half_even 10500 = 10500"
    using round_half_even_int[of 9000] round_half_even_int[of 12500]
      round_half_even_int[of 10500] by simp_all
  have eq: "get_price_data (\<lambda>s. None) (Inr (Some ?rs))
     = Inr \<lparr>min_price = Some (Finite 90), max_price = Some (Finite 125),
            avg_price = Some (Finite 105), currency = ''USD'', source_count = 3\<rparr>"
    using get_price_data_priced[OF ne, of "[Finite 90, Finite 100, Finite 125]"
        "[Finite 90, Finite 100, Finite 125]" "Finite 90" "Finite 125" "Finite 105"] ro rng mean
    unfolding ex by (simp add: rh)
  show ?thesis
    using price_summary_order[OF eq, of "Finite 90" "Finite 125" "Finite 105"] eq by simp
qed

theorem price_summary_order_counterexample:
  "get_price_data (\<lambda>s. None)
     (Inr (Some [\<lparr>extracted_price = Some (Finite 7), price = None\<rparr>,
                 \<lparr>extracted_price = Some (Finite 10), price = None\<rparr>,
                 \<lparr>extracted_price = Some (Finite 10), price = None\<rparr>,
                 \<lparr>extracted_price = Some (Finite 12), price = None\<rparr>]))
     = Inr \<lparr>min_price = Some (Finite 10), max_price = Some (Finite 12),
            avg_price = Some (Finite 9.75), currency = ''USD'', source_count = 4\<rparr>
   \<and> \<not> fle (Finite 10) (Finite 9.75)"
proof -
  let ?rs = "[\<lparr>extracted_price = Some (Finite 7), price = None\<rparr>,
                 \<lparr>extracted_price = Some (Finite 10), price = None\<rparr>,
                 \<lparr>extracted_price = Some (Finite 10), price = None\<rparr>,
                 \<lparr>extracted_price = Some (Finite 12), price = None\<rparr>]"
  let ?ps = "[Finite 7, Finite 10, Finite 10, Finite 12]"
  have ex: "extract_prices (\<lambda>s. None) ?rs = ?ps" by simp
  have ne: "extract_prices (\<lambda>s. None) ?rs \<noteq> []" by simp
  have srt: "py_sorted ?ps = ?ps" by (simp add: py_sorted_def)
  have ro: "remove_outliers ?ps = Inr ?ps"
    by (simp add: remove_outliers_def bind_exc_def py_index_def srt fsub_def)
  have rng: "price_range ?ps = Inr (Finite 10, Finite 12)"
    by (simp add: price_range_def bind_exc_def py_index_def srt)
  have mean: "statistics_mean ?ps = Inr (Finite 9.75)"
    by (simp add: statistics_mean_def)
  have rh: "round_half_even 1000 = 1000" "round_half_even 1200 = 1200"
    "round_half_even 975 = 975"
    using round_half_even_int[of 1000] round_half_even_int[of 1200]
      round_half_even_int[of 975] by simp_all
  have "get_price_data (\<lambda>s. None) (Inr (Some ?rs))
     = Inr \<lparr>min_price = Some (Finite 10), max_price = Some (Finite 12),
            avg_price = Some (Finite 9.75), currency = ''USD'', source_count = 4\<rparr>"
    using get_price_data_priced[OF ne, of ?ps ?ps "Finite 10" "Finite 12" "Finite 9.75"]
      ro rng mean
    unfolding ex by (simp add: rh)
  then show ?thesis by simp
qed

text \<open>
  C2, as the code has it. When the shopping results yield no valid price, the result of
  \<open>get_price_data\<close> has \<open>min_price\<close>, \<open>max_price\<close> and \<open>avg_price\<close> absent, and its
  \<open>source_count\<close> is the number of shopping results received: zero exactly when there
  were none.
\<close>

theorem no_valid_prices:
  assumes "extract_prices py_float shopping_results = []"
  shows "get_price_data py_float (Inr (Some shopping_results)) =
           Inr \<lparr>min_price = None, max_price = None, avg_price = None, currency = ''USD'',
                source_count = int (length shopping_results)\<rparr>
         \<and> (\<forall>r. get_price_data py_float (Inr (Some shopping_results)) = Inr r \<longrightarrow>
                (source_count r = 0 \<longleftrightarrow> shopping_results = []))"
  using assms
  by (simp add: get_price_data_results price_statistics_def PriceDataResult_of_count_def)

theorem no_valid_prices_witness:
  "extract_prices (\<lambda>s. None)
     [\<lparr>extracted_price = Some (Finite 0), price = Some ''Free''\<rparr>,
      \<lparr>extracted_price = None, price = None\<rparr>] = []
   \<and> get_price_data (\<lambda>s. None)
       (Inr (Some [\<lparr>extracted_price = Some (Finite 0), price = Some ''Free''\<rparr>,
                   \<lparr>extracted_price = None, price = None\<rparr>]))
     = Inr \<lparr>min_price = None, max_price = None, avg_price = None, currency = ''USD'',
            source_count = 2\<rparr>"
proof -
  have ex: "extract_prices (\<lambda>s. None)
     [\<lparr>extracted_price = Some (Finite 0), price = Some ''Free''\<rparr>,
      \<lparr>extracted_price = None, price = None\<rparr>] = []"
    by (simp add: parse_price_string_def)
  show ?thesis using no_valid_prices[OF ex] ex by simp
qed

theorem no_valid_prices_counterexample:
  "extract_prices (\<lambda>s. None) [\<lparr>extracted_price = Some (Finite 0), price = Some ''Free''\<rparr>] = []
   \<and> get_price_data (\<lambda>s. None)
       (Inr (Some [\<lparr>extracted_price = Some (Finite 0), price = Some ''Free''\<rparr>]))
     = Inr \<lparr>min_price = None, max_price = None, avg_price = None, currency = ''USD'',
            source_count = 1\<rparr>
   \<and> source_count \<lparr>min_price = None, max_price = None, avg_price = None, currency = ''USD'',
            source_count = 1\<rparr> \<noteq> 0"
  by (simp add: get_price_data_results price_statistics_def PriceDataResult_of_count_def)

section \<open>The claim on upstream failures\<close>

text \<open>
  C3, as the code has it. An exception of the upstream call does not leave either service:
  \<open>get_price_data\<close> returns \<open>PriceDataResult(source_count=0)\<close> and \<open>identify_item\<close> returns
  a result with category \<open>Unknown\<close> and the description \<open>Unable to identify item: \<close>
  followed by the message; neither service raises on any outcome of its upstream call.
  \<open>analyze_item\<close> over the two services then returns the report
  built from these two results. \<open>analyze_item\<close> itself has no handler: an exception that a
  service does raise leaves it unchanged.
\<close>

theorem upstream_failure_degraded:
  "get_price_data py_float (Inl e) = Inr (PriceDataResult_of_count 0)
   \<and> identify_item json_loads (Inl e') =
       Inr (GeminiVisionResult_unknown (''Unable to identify item: '' @ py_str_exc e'))
   \<and> analyze_item (identify_item json_loads (Inl e')) (\<lambda>query. get_price_data py_float (Inl e)) =
       Inr (build_response
              (GeminiVisionResult_unknown (''Unable to identify item: '' @ py_str_exc e'))
              (PriceDataResult_of_count 0))
   \<and> (\<exists>r. get_price_data py_float search = Inr r)
   \<and> (\<exists>r. identify_item json_loads generate = Inr r)
   \<and> analyze_item (Inl e') pricing = Inl e'
   \<and> analyze_item (Inr vision_result) (\<lambda>query. Inl e) = Inl e"
proof -
  have price_total: "\<exists>r. get_price_data py_float search = Inr r"
    unfolding get_price_data_def by (cases "get_price_data_try py_float search") simp_all
  have vision_total: "\<exists>r. identify_item json_loads generate = Inr r"
    unfolding identify_item_def
    by (cases "bind_exc generate (parse_response json_loads)") simp_all
  show ?thesis
    using price_total vision_total
    by (simp add: get_price_data_failed identify_item_def analyze_item_def bind_exc_def)
qed

theorem upstream_failure_counterexample:
  "get_price_data (\<lambda>s. None) (Inl (PyExc UpstreamError ''quota exceeded''))
     = Inr \<lparr>min_price = None, max_price = None, avg_price = None, currency = ''USD'',
            source_count = 0\<rparr>
   \<and> identify_item (\<lambda>s. Inl (PyExc JSONDecodeError [])) (Inl (PyExc UpstreamError ''timeout''))
     = Inr \<lparr>brand = None, model = None, condition = None, color = None,
            category = Some ''Unknown'',
            raw_description = Some ''Unable to identify item: timeout''\<rparr>
   \<and> analyze_item
       (identify_item (\<lambda>s. Inl (PyExc JSONDecodeError [])) (Inl (PyExc UpstreamError ''timeout'')))
       (\<lambda>query. get_price_data (\<lambda>s. None) (Inl (PyExc UpstreamError ''quota exceeded'')))
     = Inr \<lparr>item_name = ''Unable to identify item: timeout'',
            estimated_value = ''Price unavailable'',
            confidence_score = 0.5,
            description = ''Unable to identify item: timeout'',
            rarity_score = ''Unknown'',
            response_category = ''Unknown'',
            market_demand = ''Low'',
            response_source_count = 0\<rparr>"
proof -
  have p: "get_price_data (\<lambda>s. None) (Inl (PyExc UpstreamError ''quota exceeded''))
     = Inr \<lparr>min_price = None, max_price = None, avg_price = None, currency = ''USD'',
            source_count = 0\<rparr>"
    by (simp add: get_price_data_failed PriceDataResult_of_count_def)
  have v: "identify_item (\<lambda>s. Inl (PyExc JSONDecodeError [])) (Inl (PyExc UpstreamError ''timeout''))
     = Inr \<lparr>brand = None, model = None, condition = None, color = None,
            category = Some ''Unknown'',
            raw_description = Some ''Unable to identify item: timeout''\<rparr>"
    by (simp add: identify_item_def bind_exc_def GeminiVisionResult_unknown_def)
  have strip: "py_strip ''Unable to identify item: timeout'' = ''Unable to identify item: timeout''"
    by (simp add: py_strip_def py_isspace_def)
  have name: "format_item_name \<lparr>brand = None, model = None, condition = None, color = None,
            category = Some ''Unknown'',
            raw_description = Some ''Unable to identify item: timeout''\<rparr>
       = ''Unable to identify item: timeout''"
    by (simp add: format_item_name_def brand_model_parts_def truthy_str_def strip)
  have descr: "generate_description \<lparr>brand = None, model = None, condition = None, color = None,
            category = Some ''Unknown'',
            raw_description = Some ''Unable to identify item: timeout''\<rparr>
       = ''Unable to identify item: timeout''"
    by (simp add: generate_description_def truthy_str_def)
  have conf: "calculate_confidence \<lparr>brand = None, model = None, condition = None, color = None,
            category = Some ''Unknown'',
            raw_description = Some ''Unable to identify item: timeout''\<rparr>
          \<lparr>min_price = None, max_price = None, avg_price = None, currency = ''USD'',
            source_count = 0\<rparr> = 0.5"
    by (simp add: calculate_confidence_def truthy_str_def)
  show ?thesis
    unfolding p v
    by (simp add: analyze_item_def bind_exc_def build_response_def name descr conf
        format_price_range_def calculate_rarity_def calculate_market_demand_def truthy_str_def)
qed

section \<open>The claims on the scoring heuristics\<close>

lemma calculate_confidence_eq:
  "calculate_confidence vision_result price_data =
     spec_confidence (truthy_str (brand vision_result)) (truthy_str (model vision_result))
       (truthy_str (condition vision_result)) (source_count price_data)"
  by (simp add: calculate_confidence_def spec_confidence_def Let_def)

lemma spec_confidence_bounds:
  "0.5 \<le> spec_confidence b m c n \<and> spec_confidence b m c n \<le> 1.0"
  by (simp add: spec_confidence_def)

text \<open>
  C5. \<open>_calculate_rarity\<close> is the first-match reading of the specification's rule table:
  \<open>Unknown\<close> without an average, and otherwise the tier of the first rule, in the order
  Legendary, Epic, Rare, Uncommon, that the average and the source count satisfy, \<open>Common\<close>
  when none does. An average of 200 with 2 sources is \<open>Epic\<close>, not \<open>Rare\<close>.
\<close>

theorem rarity_first_match:
  "calculate_rarity price_data =
     spec_rarity_tier (avg_price price_data) (source_count price_data)
   \<and> calculate_rarity \<lparr>min_price = lo, max_price = hi, avg_price = Some (Finite 200),
                         currency = cur, source_count = 2\<rparr> = ''Epic''
   \<and> calculate_rarity \<lparr>min_price = lo, max_price = hi, avg_price = Some (Finite 200),
                         currency = cur, source_count = 2\<rparr> \<noteq> ''Rare''"
  by (cases "avg_price price_data")
     (simp_all add: calculate_rarity_def spec_rarity_tier_def spec_rarity_rules_def Let_def)

text \<open>
  C6. \<open>_calculate_confidence\<close> is the base 0.5 plus 0.15 for a brand, 0.15 for a model,
  0.05 for a condition, and 0.15 for ten or more sources or else 0.10 for five or more,
  clamped at 1.0; the score lies between 0.5 and 1.0. A field is present when it is neither
  \<open>None\<close> nor the empty string, which is what the code's \<open>if vision_result.brand:\<close> tests.
\<close>

theorem confidence_formula_and_bounds:
  "calculate_confidence vision_result price_data =
     min 1.0
       (0.5 + (if truthy_str (brand vision_result) then 0.15 else 0)
            + (if truthy_str (model vision_result) then 0.15 else 0)
            + (if truthy_str (condition vision_result) then 0.05 else 0)
            + (if source_count price_data \<ge> 10 then 0.15
               else if source_count price_data \<ge> 5 then 0.10 else 0))
   \<and> calculate_confidence vision_result price_data =
       spec_confidence (truthy_str (brand vision_result)) (truthy_str (model vision_result))
         (truthy_str (condition vision_result)) (source_count price_data)
   \<and> 0.5 \<le> calculate_confidence vision_result price_data
   \<and> calculate_confidence vision_result price_data \<le> 1.0"
  using spec_confidence_bounds[of "truthy_str (brand vision_result)"
      "truthy_str (model vision_result)" "truthy_str (condition vision_result)"
      "source_count price_data"]
  unfolding calculate_confidence_eq by (simp add: spec_confidence_def)

text \<open>
  C10. The confidence score is a function of the three presence flags and of the source
  count alone: two pairs of inputs that agree on whether brand, model and condition are
  present and on \<open>source_count\<close> get the same score, whatever the texts and the prices.
\<close>

theorem confidence_depends_on_flags_only:
  assumes "truthy_str (brand v1) = truthy_str (brand v2)"
    and "truthy_str (model v1) = truthy_str (model v2)"
    and "truthy_str (condition v1) = truthy_str (condition v2)"
    and "source_count p1 = source_count p2"
  shows "calculate_confidence v1 p1 = calculate_confidence v2 p2"
  using assms by (simp add: calculate_confidence_eq)

theorem confidence_depends_on_flags_only_witness:
  "truthy_str (Some ''Nike'') = truthy_str (Some ''Apple'')
   \<and> truthy_str None = truthy_str (Some [])
   \<and> truthy_str (Some ''Good'') = truthy_str (Some ''Poor'')
   \<and> calculate_confidence
       \<lparr>brand = Some ''Nike'', model = None, condition = Some ''Good'', color = None,
        category = Some ''Sneakers'', raw_description = Some ''High-top sneaker''\<rparr>
       \<lparr>min_price = Some (Finite 150), max_price = Some (Finite 350),
        avg_price = Some (Finite 220), currency = ''USD'', source_count = 7\<rparr>
     = calculate_confidence
       \<lparr>brand = Some ''Apple'', model = Some [], condition = Some ''Poor'',
        color = Some ''Black'', category = None, raw_description = None\<rparr>
       \<lparr>min_price = None, max_price = None, avg_price = None,
        currency = ''EUR'', source_count = 7\<rparr>"
proof -
  have flags: "truthy_str (Some ''Nike'') = truthy_str (Some ''Apple'')"
    "truthy_str None = truthy_str (Some [])"
    "truthy_str (Some ''Good'') = truthy_str (Some ''Poor'')"
    by (simp_all add: truthy_str_def)
  show ?thesis
    using flags
      confidence_depends_on_flags_only
        [of "\<lparr>brand = Some ''Nike'', model = None, condition = Some ''Good'', color = None,
              category = Some ''Sneakers'', raw_description = Some ''High-top sneaker''\<rparr>"
            "\<lparr>brand = Some ''Apple'', model = Some [], condition = Some ''Poor'',
              color = Some ''Black'', category = None, raw_description = None\<rparr>"
            "\<lparr>min_price = Some (Finite 150), max_price = Some (Finite 350),
              avg_price = Some (Finite 220), currency = ''USD'', source_count = 7\<rparr>"
            "\<lparr>min_price = None, max_price = None, avg_price = None,
              currency = ''EUR'', source_count = 7\<rparr>"]
    by simp
qed

section \<open>The claims on the report texts\<close>

subsection \<open>The price display\<close>









subsection \<open>Splitting strings\<close>

lemma starts_with_append: "starts_with p sep \<Longrightarrow> starts_with (p @ r) sep"
  by (induction p sep rule: starts_with.induct) simp_all

lemma starts_with_iff: "starts_with s sep \<longleftrightarrow> (\<exists>r. s = sep @ r)"
  by (induction s sep rule: starts_with.induct) auto

lemma split_first_prefix: "\<exists>r. s = split_first sep s @ r"
  by (induction s) auto

lemma split_first_sep:
  "py_contains sep s \<Longrightarrow> sep \<noteq> [] \<Longrightarrow> \<exists>r. s = split_first sep s @ sep @ r"
proof (induction s)
  case Nil
  then show ?case by simp
next
  case (Cons c cs)
  show ?case
  proof (cases "starts_with (c # cs) sep")
    case True
    then show ?thesis by (simp add: starts_with_iff)
  next
    case False
    with Cons.prems have "py_contains sep cs" by simp
    from Cons.IH[OF this Cons.prems(2)] False show ?thesis by auto
  qed
qed

lemma split_first_no_sep: "sep \<noteq> [] \<Longrightarrow> \<not> py_contains sep (split_first sep s)"
proof (induction s)
  case Nil
  then show ?case by simp
next
  case (Cons c cs)
  show ?case
  proof (cases "starts_with (c # cs) sep")
    case True
    with Cons.prems show ?thesis by simp
  next
    case False
    obtain r where r: "cs = split_first sep cs @ r" using split_first_prefix by blast
    have "\<not> starts_with (c # split_first sep cs) sep"
    proof
      assume "starts_with (c # split_first sep cs) sep"
      then have "starts_with ((c # split_first sep cs) @ r) sep" by (rule starts_with_append)
      with r False show False by simp
    qed
    with False Cons.IH[OF Cons.prems] show ?thesis by simp
  qed
qed

lemma rsplit_space_first_split:
  assumes "CHR '' '' \<in> set s"
  shows "\<exists>tail. s = rsplit_space_first s @ CHR '' '' # tail \<and> CHR '' '' \<notin> set tail"
proof -
  let ?P = "\<lambda>c. c \<noteq> CHR '' ''"
  let ?d = "dropWhile ?P (rev s)"
  have ne: "?d \<noteq> []" using assms by (simp add: dropWhile_eq_Nil_conv)
  then have "\<not> ?P (hd ?d)" by (rule hd_dropWhile)
  then have hd: "hd ?d = CHR '' ''" by simp
  have "rev s = takeWhile ?P (rev s) @ hd ?d # tl ?d"
    using ne by (metis hd_Cons_tl takeWhile_dropWhile_id)
  then have "s = rev (tl ?d) @ CHR '' '' # rev (takeWhile ?P (rev s))"
    using hd by (metis rev_append rev.simps(2) rev_rev_ident append_Cons append_Nil append_assoc)
  moreover have "CHR '' '' \<notin> set (rev (takeWhile ?P (rev s)))"
    using set_takeWhileD by fastforce
  moreover have "rsplit_space_first s = rev (tl ?d)"
    using assms by (simp add: rsplit_space_first_def)
  ultimately show ?thesis by metis
qed

lemma rsplit_space_first_none: "CHR '' '' \<notin> set s \<Longrightarrow> rsplit_space_first s = s"
  by (simp add: rsplit_space_first_def)

lemma rsplit_space_first_length: "length (rsplit_space_first s) \<le> length s"
proof (cases "CHR '' '' \<in> set s")
  case True
  from rsplit_space_first_split[OF this] obtain tail
    where "s = rsplit_space_first s @ CHR '' '' # tail" by blast
  then have "length s = length (rsplit_space_first s) + Suc (length tail)"
    by (metis length_append length_Cons)
  then show ?thesis by simp
next
  case False
  then show ?thesis by (simp add: rsplit_space_first_none)
qed

subsection \<open>The item name\<close>

lemma format_item_name_no_parts:
  assumes "\<not> truthy_str (brand v)" and "\<not> truthy_str (model v)"
  shows "format_item_name v =
     (if truthy_str (raw_description v) then
        (let desc = py_strip (the (raw_description v))
         in if py_contains ''. '' desc then split_first ''. '' desc
            else if length desc > 50 then rsplit_space_first (take 50 desc) @ ''...''
            else desc)
      else if truthy_str (category v) \<and> category v \<noteq> Some ''Unknown''
        then the (category v) @ '' Item''
      else ''Unidentified Item'')"
  using assms by (simp add: format_item_name_def brand_model_parts_def Let_def)

text \<open>
  C8, as the code has it. With neither brand nor model and with a non-empty description,
  the item name is taken from the stripped description \<open>desc\<close>: when \<open>desc\<close> contains
  \<open>". "\<close> the name is the text before its first occurrence, whatever its length and
  without an ellipsis; otherwise, when \<open>desc\<close> has more than 50 characters, the name is
  \<open>kept\<close> followed by \<open>...\<close>, where \<open>kept\<close> is the first 50 characters cut before their
  last space (all 50 when they hold no space), so the name has at most 53 characters; and
  otherwise the name is \<open>desc\<close>. Without a description the name is the category followed
  by \<open> Item\<close> when the category is non-empty and not \<open>Unknown\<close>, else
  \<open>Unidentified Item\<close>.
\<close>

theorem item_name_fallbacks:
  assumes nb: "\<not> truthy_str (brand v)" and nm: "\<not> truthy_str (model v)"
  shows
    "(raw_description v = Some d \<and> d \<noteq> [] \<longrightarrow>
       (let desc = py_strip d; name = format_item_name v
        in (py_contains ''. '' desc \<longrightarrow>
              (\<exists>rest. desc = name @ ''. '' @ rest) \<and> \<not> py_contains ''. '' name)
           \<and> (\<not> py_contains ''. '' desc \<and> length desc > 50 \<longrightarrow>
                (\<exists>kept. name = kept @ ''...'' \<and> length kept \<le> 50
                   \<and> (\<exists>rest. desc = kept @ rest)
                   \<and> (CHR '' '' \<in> set (take 50 desc) \<longrightarrow>
                        (\<exists>tail. take 50 desc = kept @ CHR '' '' # tail
                                \<and> CHR '' '' \<notin> set tail))
                   \<and> (CHR '' '' \<notin> set (take 50 desc) \<longrightarrow> kept = take 50 desc))
                \<and> length name \<le> 53)
           \<and> (\<not> py_contains ''. '' desc \<and> length desc \<le> 50 \<longrightarrow> name = desc)))
     \<and> (\<not> truthy_str (raw_description v) \<and> category v = Some c \<and> c \<noteq> []
          \<and> c \<noteq> ''Unknown'' \<longrightarrow> format_item_name v = c @ '' Item'')
     \<and> (\<not> truthy_str (raw_description v)
          \<and> (\<not> truthy_str (category v) \<or> category v = Some ''Unknown'')
          \<longrightarrow> format_item_name v = ''Unidentified Item'')"
proof (intro conjI impI)
  assume d: "raw_description v = Some d \<and> d \<noteq> []"
  define desc where "desc = py_strip d"
  define name where "name = format_item_name v"
  have tr: "truthy_str (raw_description v)" using d by (simp add: truthy_str_def)
  have nm_eq: "name = (if py_contains ''. '' desc then split_first ''. '' desc
            else if length desc > 50 then rsplit_space_first (take 50 desc) @ ''...''
            else desc)"
    using d tr by (simp add: name_def desc_def format_item_name_no_parts[OF nb nm] Let_def)
  have sentence: "(\<exists>rest. desc = name @ ''. '' @ rest) \<and> \<not> py_contains ''. '' name"
    if c: "py_contains ''. '' desc"
  proof -
    have n: "name = split_first ''. '' desc" using c by (simp add: nm_eq)
    have "\<exists>rest. desc = split_first ''. '' desc @ ''. '' @ rest"
      using c by (intro split_first_sep) simp_all
    moreover have "\<not> py_contains ''. '' (split_first ''. '' desc)"
      by (rule split_first_no_sep) simp
    ultimately show ?thesis unfolding n by blast
  qed
  have truncated: "(\<exists>kept. name = kept @ ''...'' \<and> length kept \<le> 50
                   \<and> (\<exists>rest. desc = kept @ rest)
                   \<and> (CHR '' '' \<in> set (take 50 desc) \<longrightarrow>
                        (\<exists>tail. take 50 desc = kept @ CHR '' '' # tail
                                \<and> CHR '' '' \<notin> set tail))
                   \<and> (CHR '' '' \<notin> set (take 50 desc) \<longrightarrow> kept = take 50 desc))
                \<and> length name \<le> 53"
    if c: "\<not> py_contains ''. '' desc \<and> length desc > 50"
  proof -
    define kept where "kept = rsplit_space_first (take 50 desc)"
    have n: "name = kept @ ''...''" using c by (simp add: nm_eq kept_def)
    have len: "length kept \<le> 50"
      using rsplit_space_first_length[of "take 50 desc"] by (simp add: kept_def)
    have pre: "\<exists>rest. desc = kept @ rest"
    proof (cases "CHR '' '' \<in> set (take 50 desc)")
      case True
      from rsplit_space_first_split[OF this] obtain tail
        where t: "take 50 desc = kept @ CHR '' '' # tail" unfolding kept_def by blast
      have "desc = take 50 desc @ drop 50 desc" by simp
      then have "desc = kept @ (CHR '' '' # tail @ drop 50 desc)" using t by simp
      then show ?thesis by blast
    next
      case False
      then have "kept = take 50 desc" by (simp add: kept_def rsplit_space_first_none)
      then have "desc = kept @ drop 50 desc" by simp
      then show ?thesis by blast
    qed
    have sp: "CHR '' '' \<in> set (take 50 desc) \<longrightarrow>
                (\<exists>tail. take 50 desc = kept @ CHR '' '' # tail \<and> CHR '' '' \<notin> set tail)"
      using rsplit_space_first_split[of "take 50 desc"] unfolding kept_def by blast
    have nsp: "CHR '' '' \<notin> set (take 50 desc) \<longrightarrow> kept = take 50 desc"
      by (simp add: kept_def rsplit_space_first_none)
    have "length name \<le> 53" using len by (simp add: n)
    with n len pre sp nsp show ?thesis by blast
  qed
  have short: "name = desc" if "\<not> py_contains ''. '' desc \<and> length desc \<le> 50"
    using that by (simp add: nm_eq)
  show "let desc = py_strip d; name = format_item_name v
        in (py_contains ''. '' desc \<longrightarrow>
              (\<exists>rest. desc = name @ ''. '' @ rest) \<and> \<not> py_contains ''. '' name)
           \<and> (\<not> py_contains ''. '' desc \<and> length desc > 50 \<longrightarrow>
                (\<exists>kept. name = kept @ ''...'' \<and> length kept \<le> 50
                   \<and> (\<exists>rest. desc = kept @ rest)
                   \<and> (CHR '' '' \<in> set (take 50 desc) \<longrightarrow>
                        (\<exists>tail. take 50 desc = kept @ CHR '' '' # tail
                                \<and> CHR '' '' \<notin> set tail))
                   \<and> (CHR '' '' \<notin> set (take 50 desc) \<longrightarrow> kept = take 50 desc))
                \<and> length name \<le> 53)
           \<and> (\<not> py_contains ''. '' desc \<and> length desc \<le> 50 \<longrightarrow> name = desc)"
    unfolding Let_def desc_def[symmetric] name_def[symmetric]
    using sentence truncated short by blast
next
  assume "\<not> truthy_str (raw_description v) \<and> category v = Some c \<and> c \<noteq> []
          \<and> c \<noteq> ''Unknown''"
  then show "format_item_name v = c @ '' Item''"
    by (simp add: format_item_name_no_parts[OF nb nm] truthy_str_def)
next
  assume "\<not> truthy_str (raw_description v)
          \<and> (\<not> truthy_str (category v) \<or> category v = Some ''Unknown'')"
  then show "format_item_name v = ''Unidentified Item''"
    by (auto simp: format_item_name_no_parts[OF nb nm])
qed

theorem item_name_fallbacks_witness:
  "\<not> truthy_str None
   \<and> format_item_name
       \<lparr>brand = None, model = None, condition = None, color = None,
        category = Some ''Furniture'',
        raw_description =
          Some ''Vintage handcrafted solid oak dining table with six matching chairs''\<rparr>
     = ''Vintage handcrafted solid oak dining table with...''
   \<and> format_item_name
       \<lparr>brand = None, model = None, condition = None, color = None,
        category = Some ''Furniture'', raw_description = None\<rparr>
     = ''Furniture Item''
   \<and> format_item_name
       \<lparr>brand = None, model = None, condition = None, color = None,
        category = Some ''Unknown'', raw_description = None\<rparr>
     = ''Unidentified Item''"
proof -
  have t: "\<not> truthy_str None" by (simp add: truthy_str_def)
  have strip: "py_strip ''Vintage handcrafted solid oak dining table with six matching chairs''
      = ''Vintage handcrafted solid oak dining table with six matching chairs''"
    by (simp add: py_strip_def py_isspace_def)
  have cut: "rsplit_space_first ''Vintage handcrafted solid oak dining table with si''
      = ''Vintage handcrafted solid oak dining table with''"
    by (simp add: rsplit_space_first_def)
  have a: "format_item_name
       \<lparr>brand = None, model = None, condition = None, color = None,
        category = Some ''Furniture'',
        raw_description =
          Some ''Vintage handcrafted solid oak dining table with six matching chairs''\<rparr>
     = ''Vintage handcrafted solid oak dining table with...''"
    by (simp add: format_item_name_def brand_model_parts_def truthy_str_def strip cut)
  show ?thesis
    using t a
      item_name_fallbacks[of
        "\<lparr>brand = None, model = None, condition = None, color = None,
          category = Some ''Furniture'', raw_description = None\<rparr>" "[]" "''Furniture''"]
      item_name_fallbacks[of
        "\<lparr>brand = None, model = None, condition = None, color = None,
          category = Some ''Unknown'', raw_description = None\<rparr>" "[]" "''Unknown''"]
    by simp
qed

theorem item_name_fallbacks_counterexample:
  "format_item_name
     \<lparr>brand = None, model = None, condition = None, color = None,
      category = Some ''Furniture'',
      raw_description =
        Some ''Vintage handcrafted solid oak dining table with six matching chairs. Minor wear.''\<rparr>
     = ''Vintage handcrafted solid oak dining table with six matching chairs''
   \<and> length ''Vintage handcrafted solid oak dining table with six matching chairs'' = 67
   \<and> \<not> (67 \<le> (50::nat))
   \<and> format_item_name
     \<lparr>brand = None, model = None, condition = None, color = None,
      category = Some ''Other'',
      raw_description = Some ''Pneumonoultramicroscopicsilicovolcanoconiosisspecimenjar''\<rparr>
     = ''Pneumonoultramicroscopicsilicovolcanoconiosisspeci...''
   \<and> length ''Pneumonoultramicroscopicsilicovolcanoconiosisspeci...'' = 53"
proof -
  have strip1: "py_strip ''Vintage handcrafted solid oak dining table with six matching chairs. Minor wear.''
      = ''Vintage handcrafted solid oak dining table with six matching chairs. Minor wear.''"
    by (simp add: py_strip_def py_isspace_def)
  have strip2: "py_strip ''Pneumonoultramicroscopicsilicovolcanoconiosisspecimenjar''
      = ''Pneumonoultramicroscopicsilicovolcanoconiosisspecimenjar''"
    by (simp add: py_strip_def py_isspace_def)
  have cut: "rsplit_space_first ''Pneumonoultramicroscopicsilicovolcanoconiosisspeci''
      = ''Pneumonoultramicroscopicsilicovolcanoconiosisspeci''"
    by (simp add: rsplit_space_first_def)
  show ?thesis
    by (simp add: format_item_name_def brand_model_parts_def truthy_str_def strip1 strip2 cut)
qed

end
